theory Spec2Isabelle
  imports Main "HOL-Library.AList"
begin

section \<open>JavaScript values as the handlers read them\<close>

text \<open>
  Query parameters, headers and JSON properties that the handlers read are strings that
  may be missing (\<open>null\<close> or \<open>undefined\<close>): \<open>string option\<close>. A JavaScript condition
  \<open>if (v)\<close> on such a value holds when the value is present and not the empty string.
\<close>

definition truthy :: "string option \<Rightarrow> bool" where
  "truthy v = (case v of None \<Rightarrow> False | Some s \<Rightarrow> s \<noteq> [])"

text \<open>A value inside a template literal: \<open>undefined\<close> prints as the word.\<close>

definition js_template :: "string option \<Rightarrow> string" where
  "js_template v = (case v of None \<Rightarrow> ''undefined'' | Some s \<Rightarrow> s)"

text \<open>
  One item of \<open>body.value\<close>, with the properties the four webhook handlers read.
  \<open>resourceData_id\<close> is \<open>bodyValue.resourceData?.id\<close>.
\<close>

record notification =
  subscriptionId :: "string option"
  clientState :: "string option"
  changeType :: "string option"
  lifecycleEvent :: "string option"
  resourceData_id :: "string option"

text \<open>
  \<open>JSON.stringify(bodyValue)\<close>: an object prints as its present properties between
  braces (properties that are \<open>undefined\<close> are left out). String escaping and properties
  the handlers never read are not represented; the result always starts with a brace.
\<close>

definition json_member :: "string \<Rightarrow> string option \<Rightarrow> string list" where
  \<open>json_member k v = (case v of None \<Rightarrow> [] | Some s \<Rightarrow> [''"'' @ k @ ''":"'' @ s @ ''"''])\<close>

fun join_commas :: "string list \<Rightarrow> string" where
  "join_commas [] = []"
| "join_commas [x] = x"
| "join_commas (x # y # ys) = x @ '','' @ join_commas (y # ys)"

definition JSON_stringify :: "notification \<Rightarrow> string" where
  \<open>JSON_stringify b =
     ''{'' @ join_commas
        (json_member ''subscriptionId'' (subscriptionId b) @
         json_member ''clientState'' (clientState b) @
         json_member ''changeType'' (changeType b) @
         json_member ''lifecycleEvent'' (lifecycleEvent b) @
         (case resourceData_id b of None \<Rightarrow> []
          | Some i \<Rightarrow> [''"resourceData":{"id":"'' @ i @ ''"}''])) @ ''}''\<close>

section \<open>The keyed expiring cache (Workers KV binding \<open>MICROSOFT_EVENT_CACHE\<close>)\<close>

text \<open>
  Modelled from the spec: the store itself is the platform's (a Workers KV namespace), not
  code of this repository. Section 6 of the specification gives its interface:
  \<open>get(key)\<close> gives the payload or nothing, \<open>put(key, payload, ttlSeconds | noExpiry)\<close>
  stores an entry that expires \<open>ttlSeconds\<close> after the write, or never. Time is in
  seconds. Either call can fail (the promise rejects); every call is recorded in \<open>ops\<close>.
\<close>

record kv_entry =
  payload :: string
  expiration :: "nat option"

datatype kv_op = KvGet string | KvPut string string "nat option"

record kv_namespace =
  entries :: "string \<Rightarrow> kv_entry option"
  reads_ok :: bool
  writes_ok :: bool
  ops :: "kv_op list"

datatype thrown = TypeError | SyntaxError | KVError | HTTPException nat

definition live :: "nat \<Rightarrow> kv_entry \<Rightarrow> bool" where
  "live now e = (case expiration e of None \<Rightarrow> True | Some t \<Rightarrow> now < t)"

definition kv_get :: "nat \<Rightarrow> kv_namespace \<Rightarrow> string \<Rightarrow> (thrown + string option) \<times> kv_namespace" where
  "kv_get now kv k =
     (let kv' = kv\<lparr>ops := ops kv @ [KvGet k]\<rparr> in
      if \<not> reads_ok kv then (Inl KVError, kv')
      else (Inr (case entries kv k of
                   None \<Rightarrow> None
                 | Some e \<Rightarrow> if live now e then Some (payload e) else None), kv'))"

definition kv_put ::
  "nat \<Rightarrow> kv_namespace \<Rightarrow> string \<Rightarrow> string \<Rightarrow> nat option \<Rightarrow> thrown option \<times> kv_namespace" where
  "kv_put now kv k v expirationTtl =
     (let kv' = kv\<lparr>ops := ops kv @ [KvPut k v expirationTtl]\<rparr> in
      if \<not> writes_ok kv then (Some KVError, kv')
      else (None, kv'\<lparr>entries := (entries kv)(k \<mapsto>
              \<lparr>payload = v,
               expiration = (case expirationTtl of None \<Rightarrow> None | Some n \<Rightarrow> Some (now + n))\<rparr>)\<rparr>))"

record Env =
  MICROSOFT_CLIENT_ID :: string
  MICROSOFT_CLIENT_SECRET :: string
  MICROSOFT_TENANT_ID :: string
  MICROSOFT_WEBHOOK_SECRET :: string
  MICROSOFT_EVENT_CACHE :: kv_namespace

subsection \<open>\<open>src/api/lib/kv-helpers.ts\<close>\<close>

definition cache_key :: "string \<Rightarrow> string \<Rightarrow> string \<Rightarrow> string" where
  "cache_key serverName eventType eventId = serverName @ '':'' @ eventType @ '':'' @ eventId"

definition getEventCache ::
  "nat \<Rightarrow> Env \<Rightarrow> string \<Rightarrow> string \<Rightarrow> string \<Rightarrow> (thrown + string option) \<times> Env" where
  "getEventCache now env serverName eventType eventId =
     (case kv_get now (MICROSOFT_EVENT_CACHE env) (cache_key serverName eventType eventId) of
        (r, kv') \<Rightarrow> (r, env\<lparr>MICROSOFT_EVENT_CACHE := kv'\<rparr>))"

text \<open>The optional parameter \<open>expirationTtl?: number | null\<close> has three states.\<close>

datatype ttl_arg = Undefined | Null | Ttl nat

definition putEventCache ::
  "nat \<Rightarrow> Env \<Rightarrow> string \<Rightarrow> string \<Rightarrow> string \<Rightarrow> string \<Rightarrow> ttl_arg \<Rightarrow> thrown option \<times> Env" where
  "putEventCache now env serverName eventType eventId eventData expirationTtl =
     (case kv_put now (MICROSOFT_EVENT_CACHE env) (cache_key serverName eventType eventId) eventData
             (case expirationTtl of Undefined \<Rightarrow> Some 60 | Null \<Rightarrow> None | Ttl n \<Rightarrow> Some n) of
        (r, kv') \<Rightarrow> (r, env\<lparr>MICROSOFT_EVENT_CACHE := kv'\<rparr>))"

definition DEBOUNCE_TTL :: nat where
  "DEBOUNCE_TTL = 2 * 60"

section \<open>Webhook endpoints (\<open>src/api/index.ts\<close>)\<close>

text \<open>
  A handler answers \<open>c.json(response)\<close> with the envelope \<open>WebhookResponse\<close>, whose
  \<open>reqResponseCode\<close>, \<open>reqResponseContent\<close> and \<open>reqResponseContentType\<close> are what goes back
  to the provider. An exception that leaves a handler reaches the application's \<open>onError\<close>.
\<close>

record 'pd WebhookResponse =
  reqResponseCode :: nat
  reqResponseContent :: string
  reqResponseContentType :: string
  processData :: "'pd option"

datatype 'pd http_response = CJson "'pd WebhookResponse" | ErrorJson nat string

definition onError :: "thrown \<Rightarrow> 'pd http_response" where
  "onError err =
     (case err of
        HTTPException st \<Rightarrow>
          if st = 401 then ErrorJson 401 ''invalid_token'' else ErrorJson 500 ''server_error''
      | _ \<Rightarrow> ErrorJson 500 ''server_error'')"

record EmailProcessData =
  email_name :: string
  email_subscriptionId :: string
  emailIds :: "string list"

record CalendarEventNotification =
  eventId :: string
  eventType :: "string option"

record CalendarProcessData =
  calendar_name :: string
  calendar_subscriptionId :: string
  calendar_events :: "CalendarEventNotification list"

record NotificationProcessData =
  lifecycle_name :: string
  lifecycle_subscriptionId :: string
  lifecycle_events :: "string list"

text \<open>
  A request: the \<open>validationToken\<close> query parameter, the \<open>x-mcp-name\<close> header and the body.
  \<open>c.req.json()\<close> rejects on a body that is not JSON; \<open>JsonBody v\<close> is a parsed body whose
  \<open>value\<close> property is the array \<open>v\<close>, or is not iterable (\<open>None\<close>).
\<close>

datatype req_body = BadJson | JsonBody "notification list option"

record request =
  validationToken :: "string option"
  x_mcp_name :: "string option"
  body :: req_body

definition validation_response :: "string \<Rightarrow> 'pd WebhookResponse" where
  "validation_response token =
     \<lparr>reqResponseCode = 200, reqResponseContent = token,
      reqResponseContentType = ''text'', processData = None\<rparr>"

definition ok_response :: "'pd option \<Rightarrow> 'pd WebhookResponse" where
  \<open>ok_response pd =
     \<lparr>reqResponseCode = 202, reqResponseContent = ''{"ok":true}'',
      reqResponseContentType = ''json'', processData = pd\<rparr>\<close>

subsection \<open>\<open>POST /webhooks/email-notify\<close>\<close>

definition email_item ::
  "string \<Rightarrow> string list \<times> string option \<Rightarrow> notification \<Rightarrow> string list \<times> string option" where
  "email_item secret st bodyValue =
     (case st of (ids, subId) \<Rightarrow>
        if clientState bodyValue \<noteq> Some secret then st
        else (case resourceData_id bodyValue of
                None \<Rightarrow> st
              | Some resourceId \<Rightarrow>
                  if resourceId = [] then st
                  else (ids @ [resourceId],
                        if \<not> truthy subId then subscriptionId bodyValue else subId)))"

definition email_batch ::
  "Env \<Rightarrow> string option \<Rightarrow> notification list \<Rightarrow> EmailProcessData WebhookResponse" where
  "email_batch env name bodyValues =
     (case foldl (email_item (MICROSOFT_WEBHOOK_SECRET env)) ([], None) bodyValues of
        (ids, subId) \<Rightarrow>
          (case subId of
             None \<Rightarrow> ok_response None
           | Some sid \<Rightarrow>
               (case name of
                  None \<Rightarrow> ok_response None
                | Some n \<Rightarrow>
                    if sid = [] \<or> n = [] \<or> ids = [] then ok_response None
                    else ok_response
                      (Some \<lparr>email_name = n, email_subscriptionId = sid, emailIds = ids\<rparr>))))"

definition email_notify :: "Env \<Rightarrow> request \<Rightarrow> EmailProcessData http_response" where
  "email_notify env req =
     (if truthy (validationToken req)
      then CJson (validation_response (js_template (validationToken req)))
      else (case body req of
              BadJson \<Rightarrow> onError SyntaxError
            | JsonBody None \<Rightarrow> onError TypeError
            | JsonBody (Some bodyValues) \<Rightarrow> CJson (email_batch env (x_mcp_name req) bodyValues)))"

subsection \<open>\<open>POST /webhooks/email-lifecycle\<close> and \<open>POST /webhooks/calendar-lifecycle\<close>\<close>

text \<open>The two lifecycle handlers have the same body.\<close>

definition lifecycle_item ::
  "string \<Rightarrow> string list \<times> string option \<Rightarrow> notification \<Rightarrow> string list \<times> string option" where
  "lifecycle_item secret st bodyValue =
     (case st of (evs, subId) \<Rightarrow>
        if clientState bodyValue \<noteq> Some secret then st
        else (case lifecycleEvent bodyValue of
                None \<Rightarrow> st
              | Some ev \<Rightarrow>
                  if ev = [] then st
                  else if ev = ''missed'' then st
                  else (evs @ [ev],
                        if \<not> truthy subId then subscriptionId bodyValue else subId)))"

definition lifecycle_batch ::
  "Env \<Rightarrow> string option \<Rightarrow> notification list \<Rightarrow> NotificationProcessData WebhookResponse" where
  "lifecycle_batch env name bodyValues =
     (case foldl (lifecycle_item (MICROSOFT_WEBHOOK_SECRET env)) ([], None) bodyValues of
        (evs, subId) \<Rightarrow>
          (case subId of
             None \<Rightarrow> ok_response None
           | Some sid \<Rightarrow>
               (case name of
                  None \<Rightarrow> ok_response None
                | Some n \<Rightarrow>
                    if sid = [] \<or> n = [] \<or> evs = [] then ok_response None
                    else ok_response
                      (Some \<lparr>lifecycle_name = n, lifecycle_subscriptionId = sid,
                             lifecycle_events = evs\<rparr>))))"

definition lifecycle_notify :: "Env \<Rightarrow> request \<Rightarrow> NotificationProcessData http_response" where
  "lifecycle_notify env req =
     (if truthy (validationToken req)
      then CJson (validation_response (js_template (validationToken req)))
      else (case body req of
              BadJson \<Rightarrow> onError SyntaxError
            | JsonBody None \<Rightarrow> onError TypeError
            | JsonBody (Some bodyValues) \<Rightarrow>
                CJson (lifecycle_batch env (x_mcp_name req) bodyValues)))"

definition email_lifecycle :: "Env \<Rightarrow> request \<Rightarrow> NotificationProcessData http_response" where
  "email_lifecycle = lifecycle_notify"

definition calendar_lifecycle :: "Env \<Rightarrow> request \<Rightarrow> NotificationProcessData http_response" where
  "calendar_lifecycle = lifecycle_notify"

subsection \<open>\<open>POST /webhooks/calendar-notify\<close>\<close>

text \<open>
  The variables of the loop over \<open>body.value\<close>: the accepted \<open>events\<close>, the
  \<open>subscriptionId\<close> found so far, and the environment with its cache.
\<close>

record calendar_loop =
  events :: "CalendarEventNotification list"
  loop_subscriptionId :: "string option"
  loop_env :: Env

text \<open>
  \<open>const d = await getEventCache(...); if (d) { continue; }\<close> followed by the rest of
  the loop body \<open>rest\<close>. A rejected lookup leaves the handler.
\<close>

definition skip_if_cached ::
  "nat \<Rightarrow> string \<Rightarrow> string \<Rightarrow> string \<Rightarrow> calendar_loop \<Rightarrow>
   (calendar_loop \<Rightarrow> thrown option \<times> calendar_loop) \<Rightarrow> thrown option \<times> calendar_loop" where
  "skip_if_cached now serverName ty eid st rest =
     (case getEventCache now (loop_env st) serverName ty eid of
        (Inl err, env') \<Rightarrow> (Some err, st\<lparr>loop_env := env'\<rparr>)
      | (Inr eventData, env') \<Rightarrow>
          if truthy eventData then (None, st\<lparr>loop_env := env'\<rparr>)
          else rest (st\<lparr>loop_env := env'\<rparr>))"

text \<open>The end of the loop body: \<open>events.push\<close>, \<open>putEventCache\<close>, \<open>subscriptionId\<close>.\<close>

definition accept_event ::
  "nat \<Rightarrow> string \<Rightarrow> notification \<Rightarrow> string \<Rightarrow> calendar_loop \<Rightarrow> thrown option \<times> calendar_loop" where
  "accept_event now serverName bodyValue eid st =
     (let pushed = events st @ [\<lparr>eventId = eid, eventType = changeType bodyValue\<rparr>] in
      case putEventCache now (loop_env st) serverName (js_template (changeType bodyValue)) eid
             (JSON_stringify bodyValue) (Ttl DEBOUNCE_TTL) of
        (Some err, env') \<Rightarrow> (Some err, st\<lparr>events := pushed, loop_env := env'\<rparr>)
      | (None, env') \<Rightarrow>
          (None, st\<lparr>events := pushed, loop_env := env',
                     loop_subscriptionId :=
                       (if \<not> truthy (loop_subscriptionId st) then subscriptionId bodyValue
                        else loop_subscriptionId st)\<rparr>))"

definition server_name :: "string option \<Rightarrow> string" where
  "server_name name = (case name of None \<Rightarrow> ''unknown'' | Some n \<Rightarrow> n)"

definition calendar_item ::
  "string option \<Rightarrow> nat \<Rightarrow> notification \<Rightarrow> calendar_loop \<Rightarrow> thrown option \<times> calendar_loop" where
  "calendar_item name now bodyValue st =
     (if clientState bodyValue \<noteq> Some (MICROSOFT_WEBHOOK_SECRET (loop_env st)) then (None, st)
      else (case resourceData_id bodyValue of
              None \<Rightarrow> (None, st)
            | Some eid \<Rightarrow>
                if eid = [] then (None, st)
                else
                  (let ty = changeType bodyValue; sn = server_name name in
                   skip_if_cached now sn (js_template ty) eid st (\<lambda>st1.
                     if ty = Some ''updated'' then
                       skip_if_cached now sn ''created'' eid st1 (\<lambda>st2.
                         skip_if_cached now sn ''deleted'' eid st2
                           (accept_event now sn bodyValue eid))
                     else if ty = Some ''created'' then
                       skip_if_cached now sn ''updated'' eid st1
                         (accept_event now sn bodyValue eid)
                     else if ty = Some ''deleted'' then
                       skip_if_cached now sn ''updated'' eid st1
                         (accept_event now sn bodyValue eid)
                     else accept_event now sn bodyValue eid st1))))"

fun calendar_items ::
  "string option \<Rightarrow> nat \<Rightarrow> notification list \<Rightarrow> calendar_loop \<Rightarrow> thrown option \<times> calendar_loop" where
  "calendar_items name now [] st = (None, st)"
| "calendar_items name now (bodyValue # rest) st =
     (case calendar_item name now bodyValue st of
        (Some err, st') \<Rightarrow> (Some err, st')
      | (None, st') \<Rightarrow> calendar_items name now rest st')"

definition calendar_response ::
  "string option \<Rightarrow> calendar_loop \<Rightarrow> CalendarProcessData WebhookResponse" where
  "calendar_response name st =
     (case loop_subscriptionId st of
        None \<Rightarrow> ok_response None
      | Some sid \<Rightarrow>
          (case name of
             None \<Rightarrow> ok_response None
           | Some n \<Rightarrow>
               if sid = [] \<or> n = [] \<or> events st = [] then ok_response None
               else ok_response
                 (Some \<lparr>calendar_name = n, calendar_subscriptionId = sid,
                        calendar_events = events st\<rparr>)))"

text \<open>
  The handler at time \<open>now\<close>; it returns the response and the environment with the cache
  as the request leaves it (writes made before an exception stay).
\<close>

definition calendar_notify ::
  "Env \<Rightarrow> nat \<Rightarrow> request \<Rightarrow> CalendarProcessData http_response \<times> Env" where
  "calendar_notify env now req =
     (if truthy (validationToken req)
      then (CJson (validation_response (js_template (validationToken req))), env)
      else (case body req of
              BadJson \<Rightarrow> (onError SyntaxError, env)
            | JsonBody None \<Rightarrow> (onError TypeError, env)
            | JsonBody (Some bodyValues) \<Rightarrow>
                (case calendar_items (x_mcp_name req) now bodyValues
                        \<lparr>events = [], loop_subscriptionId = None, loop_env = env\<rparr> of
                   (Some err, st) \<Rightarrow> (onError err, loop_env st)
                 | (None, st) \<Rightarrow> (CJson (calendar_response (x_mcp_name req) st), loop_env st))))"

section \<open>The Graph client (\<open>src/api/MicrosoftService.ts\<close>)\<close>

text \<open>
  \<open>fetch\<close> is the only effect of the service. The network is a pair of functions that
  answer a request given the calls made before it, so a server may answer the same request
  differently each time; every call is appended to a log.
\<close>

record api_request =
  url :: string
  http_method :: "string option"
  headers :: "(string \<times> string) list"

record token_request =
  tenant :: string
  client_id :: string
  client_secret :: string
  grant_type :: string
  refresh_token_param :: string
  scope_param :: string

datatype fetch_call = ApiFetch api_request | TokenFetch token_request

text \<open>
  What \<open>res.json()\<close> gives for a Graph response, as far as the service reads it: \<open>null\<close>,
  or a value with its \<open>value\<close> and \<open>@odata.nextLink\<close> properties (each may be missing). An
  item of \<open>value\<close> is kept as its JSON text.
\<close>

datatype json = JsonNull | JsonObject "string list option" "string option"

record api_response =
  status :: nat
  statusText :: string
  json_body :: "json option"

record token_json =
  access_token :: string
  refresh_token :: "string option"

record token_response =
  token_status :: nat
  token_text :: string
  token_body :: "token_json option"

datatype 'r fetched = NetworkError | Response 'r

record network =
  api :: "fetch_call list \<Rightarrow> api_request \<Rightarrow> api_response fetched"
  token_endpoint :: "fetch_call list \<Rightarrow> token_request \<Rightarrow> token_response fetched"

datatype failure =
    FetchFailed
  | ApiError nat string
  | RefreshFailed string
  | JsonSyntaxError
  | JsTypeError

record MicrosoftService =
  service_env :: Env
  accessToken :: string
  refreshToken :: string
  userId :: string

record RequestInit =
  init_method :: "string option"
  init_headers :: "(string \<times> string) list"

definition baseUrl :: string where
  "baseUrl = ''https://graph.microsoft.com/v1.0''"

definition response_ok :: "nat \<Rightarrow> bool" where
  "response_ok st = (200 \<le> st \<and> st \<le> 299)"

text \<open>The object spread \<open>{Authorization, "Content-Type", ...options.headers}\<close>.\<close>

definition request_headers :: "string \<Rightarrow> RequestInit \<Rightarrow> (string \<times> string) list" where
  "request_headers token options =
     foldl (\<lambda>hs (k, v). AList.update k v hs)
       [(''Authorization'', ''Bearer '' @ token), (''Content-Type'', ''application/json'')]
       (init_headers options)"

definition api_call :: "string \<Rightarrow> RequestInit \<Rightarrow> string \<Rightarrow> api_request" where
  "api_call u options token =
     \<lparr>url = u, http_method = init_method options, headers = request_headers token options\<rparr>"

definition res_json :: "api_response \<Rightarrow> failure + json" where
  "res_json res = (case json_body res of None \<Rightarrow> Inl JsonSyntaxError | Some j \<Rightarrow> Inr j)"

definition refresh_call :: "MicrosoftService \<Rightarrow> token_request" where
  "refresh_call svc =
     \<lparr>tenant = MICROSOFT_TENANT_ID (service_env svc),
      client_id = MICROSOFT_CLIENT_ID (service_env svc),
      client_secret = MICROSOFT_CLIENT_SECRET (service_env svc),
      grant_type = ''refresh_token'',
      refresh_token_param = refreshToken svc,
      scope_param = ''openid profile email offline_access Calendars.ReadWrite Mail.ReadWrite Mail.Send User.Read People.Read''\<rparr>"

definition refreshAccessToken ::
  "network \<Rightarrow> MicrosoftService \<times> fetch_call list \<Rightarrow>
   failure option \<times> MicrosoftService \<times> fetch_call list" where
  "refreshAccessToken net st =
     (case st of (svc, log) \<Rightarrow>
        (let log1 = log @ [TokenFetch (refresh_call svc)] in
         case token_endpoint net log (refresh_call svc) of
           NetworkError \<Rightarrow> (Some FetchFailed, svc, log1)
         | Response res \<Rightarrow>
             if \<not> response_ok (token_status res)
             then (Some (RefreshFailed (token_text res)), svc, log1)
             else (case token_body res of
                     None \<Rightarrow> (Some JsonSyntaxError, svc, log1)
                   | Some tok \<Rightarrow>
                       (None,
                        svc\<lparr>accessToken := access_token tok,
                            refreshToken :=
                              (if truthy (refresh_token tok) then js_template (refresh_token tok)
                               else refreshToken svc)\<rparr>,
                        log1))))"

definition makeRequest ::
  "network \<Rightarrow> string \<Rightarrow> RequestInit \<Rightarrow> MicrosoftService \<times> fetch_call list \<Rightarrow>
   (failure + json) \<times> MicrosoftService \<times> fetch_call list" where
  "makeRequest net u options st =
     (case st of (svc, log) \<Rightarrow>
        (let req = api_call u options (accessToken svc); log1 = log @ [ApiFetch req] in
         case api net log req of
           NetworkError \<Rightarrow> (Inl FetchFailed, svc, log1)
         | Response response \<Rightarrow>
             if status response = 401 then
               (case refreshAccessToken net (svc, log1) of
                  (Some err, svc', log2) \<Rightarrow> (Inl err, svc', log2)
                | (None, svc', log2) \<Rightarrow>
                    (let retry = api_call u options (accessToken svc');
                         log3 = log2 @ [ApiFetch retry] in
                     case api net log2 retry of
                       NetworkError \<Rightarrow> (Inl FetchFailed, svc', log3)
                     | Response res \<Rightarrow> (res_json res, svc', log3)))
             else if \<not> response_ok (status response)
             then (Inl (ApiError (status response) (statusText response)), svc, log1)
             else (res_json response, svc, log1)))"

subsection \<open>\<open>getUserCalendarEvents\<close>\<close>

text \<open>\<open>limit.toString()\<close> for a whole number, and \<open>new URLSearchParams(params).toString()\<close>.\<close>

definition digit_char :: "nat \<Rightarrow> char" where
  "digit_char d = ''0123456789ABCDEF'' ! (d mod 16)"

fun number_toString :: "nat \<Rightarrow> string" where
  "number_toString n =
     (if n < 10 then [digit_char n] else number_toString (n div 10) @ [digit_char (n mod 10)])"

definition form_unreserved :: "char \<Rightarrow> bool" where
  "form_unreserved c =
     (c \<in> set ''abcdefghijklmnopqrstuvwxyzABCDEFGHIJKLMNOPQRSTUVWXYZ0123456789*-._'')"

definition form_encode_char :: "char \<Rightarrow> string" where
  "form_encode_char c =
     (if form_unreserved c then [c]
      else if c = CHR '' '' then ''+''
      else [CHR ''%'', digit_char (of_char c div 16), digit_char (of_char c mod 16)])"

definition form_encode :: "string \<Rightarrow> string" where
  "form_encode s = concat (map form_encode_char s)"

fun join_amp :: "string list \<Rightarrow> string" where
  "join_amp [] = []"
| "join_amp [x] = x"
| "join_amp (x # y # ys) = x @ ''&'' @ join_amp (y # ys)"

definition URLSearchParams_toString :: "(string \<times> string) list \<Rightarrow> string" where
  "URLSearchParams_toString params =
     join_amp (map (\<lambda>(k, v). form_encode k @ ''='' @ form_encode v) params)"

definition initialUrl :: "MicrosoftService \<Rightarrow> string \<Rightarrow> string \<Rightarrow> nat \<Rightarrow> string" where
  "initialUrl svc startDate endDate limit =
     baseUrl @ ''/users/'' @ userId svc @ ''/events?'' @
     URLSearchParams_toString
       [(''$filter'',
         ''start/dateTime lt '' @ [CHR 0x27] @ endDate @ [CHR 0x27] @
         '' and end/dateTime ge '' @ [CHR 0x27] @ startDate @ [CHR 0x27]),
        (''$orderby'', ''start/dateTime desc''),
        (''$top'', number_toString limit)]"

text \<open>
  The loop \<open>while (url) { ... }\<close>. A server can link pages for ever, so the loop is a
  partial function: \<open>None\<close> is a run that never returns.
\<close>

partial_function (option) page_loop ::
  "network \<Rightarrow> string option \<Rightarrow> string list \<Rightarrow> MicrosoftService \<times> fetch_call list \<Rightarrow>
   ((failure + string list) \<times> MicrosoftService \<times> fetch_call list) option" where
  "page_loop net u evs st =
     (if \<not> truthy u then Some (Inr evs, st)
      else (case makeRequest net (js_template u) \<lparr>init_method = Some ''GET'', init_headers = []\<rparr> st of
              (Inl err, st') \<Rightarrow> Some (Inl err, st')
            | (Inr JsonNull, st') \<Rightarrow> Some (Inl JsTypeError, st')
            | (Inr (JsonObject newEvents next), st') \<Rightarrow>
                page_loop net (if truthy next then next else None)
                  (case newEvents of None \<Rightarrow> evs | Some es \<Rightarrow> evs @ es) st'))"

definition getUserCalendarEvents ::
  "network \<Rightarrow> string \<Rightarrow> string \<Rightarrow> nat \<Rightarrow> MicrosoftService \<times> fetch_call list \<Rightarrow>
   ((failure + string list) \<times> MicrosoftService \<times> fetch_call list) option" where
  "getUserCalendarEvents net startDate endDate limit st =
     page_loop net (Some (initialUrl (fst st) startDate endDate limit)) [] st"

section \<open>Notions used in the statements\<close>

text \<open>
  What a lookup of \<open>serverName:eventType:eventId\<close> finds at time \<open>now\<close> when the store
  answers, and the test the handler makes on it: the cache holds an entry for the key when a
  live entry with a non-empty payload is stored under it. (Every payload the handler writes
  is non-empty, see \<open>JSON_stringify_nonempty\<close>.)
\<close>

definition cache_lookup :: "nat \<Rightarrow> Env \<Rightarrow> string \<Rightarrow> string \<Rightarrow> string \<Rightarrow> string option" where
  "cache_lookup now env sn ty eid =
     (case entries (MICROSOFT_EVENT_CACHE env) (cache_key sn ty eid) of
        None \<Rightarrow> None
      | Some e \<Rightarrow> if live now e then Some (payload e) else None)"

definition cache_holds :: "nat \<Rightarrow> Env \<Rightarrow> string \<Rightarrow> string \<Rightarrow> string \<Rightarrow> bool" where
  "cache_holds now env sn ty eid = truthy (cache_lookup now env sn ty eid)"

text \<open>The environment after the cache calls \<open>os\<close> that changed no entry.\<close>

definition logged :: "Env \<Rightarrow> kv_op list \<Rightarrow> Env" where
  "logged env os =
     env\<lparr>MICROSOFT_EVENT_CACHE :=
           (MICROSOFT_EVENT_CACHE env)\<lparr>ops := ops (MICROSOFT_EVENT_CACHE env) @ os\<rparr>\<rparr>"

text \<open>The environment after a successful \<open>put\<close> of \<open>v\<close> under \<open>k\<close> at time \<open>now\<close>.\<close>

definition stored :: "nat \<Rightarrow> Env \<Rightarrow> string \<Rightarrow> string \<Rightarrow> nat option \<Rightarrow> Env" where
  "stored now env k v ttl =
     env\<lparr>MICROSOFT_EVENT_CACHE := (MICROSOFT_EVENT_CACHE env)
        \<lparr>ops := ops (MICROSOFT_EVENT_CACHE env) @ [KvPut k v ttl],
         entries := (entries (MICROSOFT_EVENT_CACHE env))(k \<mapsto>
            \<lparr>payload = v,
             expiration = (case ttl of None \<Rightarrow> None | Some n \<Rightarrow> Some (now + n))\<rparr>)\<rparr>\<rparr>"

definition ttl_seconds :: "ttl_arg \<Rightarrow> nat option" where
  "ttl_seconds a = (case a of Undefined \<Rightarrow> Some 60 | Null \<Rightarrow> None | Ttl n \<Rightarrow> Some n)"

text \<open>The tie-break table of the specification, section 4.2, step 2.\<close>

definition tie_break :: "nat \<Rightarrow> Env \<Rightarrow> string \<Rightarrow> string option \<Rightarrow> string \<Rightarrow> bool" where
  "tie_break now env sn ty eid =
     (ty = Some ''updated'' \<and>
        (cache_holds now env sn ''created'' eid \<or> cache_holds now env sn ''deleted'' eid)
      \<or> ty = Some ''created'' \<and> cache_holds now env sn ''updated'' eid
      \<or> ty = Some ''deleted'' \<and> cache_holds now env sn ''updated'' eid)"

text \<open>The acknowledgment \<open>202\<close>, \<open>{"ok":true}\<close>.\<close>

definition acknowledged :: "'pd http_response \<Rightarrow> bool" where
  \<open>acknowledged r =
     (case r of
        CJson w \<Rightarrow> reqResponseCode w = 202 \<and> reqResponseContent w = ''{"ok":true}'' \<and>
                   reqResponseContentType w = ''json''
      | ErrorJson c m \<Rightarrow> False)\<close>

text \<open>The items of a batch whose \<open>clientState\<close> is the configured secret.\<close>

definition matching :: "Env \<Rightarrow> notification list \<Rightarrow> notification list" where
  "matching env items = filter (\<lambda>b. clientState b = Some (MICROSOFT_WEBHOOK_SECRET env)) items"

text \<open>An item that passes both checks made before the first cache lookup.\<close>

definition reaches_cache :: "Env \<Rightarrow> notification \<Rightarrow> bool" where
  "reaches_cache env b =
     (clientState b = Some (MICROSOFT_WEBHOOK_SECRET env) \<and> truthy (resourceData_id b))"

text \<open>What no cache call changes: the secret and whether the store answers.\<close>

definition same_store :: "Env \<Rightarrow> Env \<Rightarrow> bool" where
  "same_store env env' =
     (MICROSOFT_WEBHOOK_SECRET env' = MICROSOFT_WEBHOOK_SECRET env \<and>
      reads_ok (MICROSOFT_EVENT_CACHE env') = reads_ok (MICROSOFT_EVENT_CACHE env) \<and>
      writes_ok (MICROSOFT_EVENT_CACHE env') = writes_ok (MICROSOFT_EVENT_CACHE env))"

text \<open>
  The email handler's loop as a list function: the ids of the items that pass both checks,
  in order, and the first such item with a \<open>subscriptionId\<close>.
\<close>

definition email_ids :: "Env \<Rightarrow> notification list \<Rightarrow> string list" where
  "email_ids env items = List.map_filter resourceData_id (filter (reaches_cache env) items)"

definition forwarded_subscription :: "Env \<Rightarrow> notification list \<Rightarrow> notification option" where
  "forwarded_subscription env items =
     find (\<lambda>b. truthy (subscriptionId b)) (filter (reaches_cache env) items)"

subsection \<open>Notions for the Graph client\<close>

text \<open>
  The request \<open>getUserCalendarEvents\<close> makes for a page, and a server that answers the
  page requests starting at \<open>u\<close> with the given pages \<open>(value, @odata.nextLink)\<close>, each
  answered with a 2xx status and linked to the next by a non-empty \<open>@odata.nextLink\<close>,
  the last without one.
\<close>

definition get_call :: "MicrosoftService \<Rightarrow> string \<Rightarrow> api_request" where
  "get_call svc u = api_call u \<lparr>init_method = Some ''GET'', init_headers = []\<rparr> (accessToken svc)"

fun linked_pages ::
  "network \<Rightarrow> MicrosoftService \<Rightarrow> fetch_call list \<Rightarrow> string \<Rightarrow>
   (string list option \<times> string option) list \<Rightarrow> bool" where
  "linked_pages net svc log u [] = False"
| "linked_pages net svc log u ((v, next) # ps) =
     (u \<noteq> [] \<and>
      (case api net log (get_call svc u) of
         NetworkError \<Rightarrow> False
       | Response r \<Rightarrow> response_ok (status r) \<and> json_body r = Some (JsonObject v next)) \<and>
      (if ps = [] then \<not> truthy next
       else truthy next \<and>
            linked_pages net svc (log @ [ApiFetch (get_call svc u)]) (js_template next) ps))"

definition page_items :: "(string list option \<times> string option) list \<Rightarrow> string list" where
  "page_items pages = concat (map (\<lambda>p. case fst p of None \<Rightarrow> [] | Some es \<Rightarrow> es) pages)"

definition page_urls :: "string \<Rightarrow> (string list option \<times> string option) list \<Rightarrow> string list" where
  "page_urls u pages = u # map (\<lambda>p. js_template (snd p)) (butlast pages)"

subsection \<open>Concrete inputs\<close>

definition example_kv :: kv_namespace where
  "example_kv = \<lparr>entries = (\<lambda>k. None), reads_ok = True, writes_ok = True, ops = []\<rparr>"

definition example_env :: Env where
  "example_env =
     \<lparr>MICROSOFT_CLIENT_ID = ''client'', MICROSOFT_CLIENT_SECRET = ''secret'',
      MICROSOFT_TENANT_ID = ''tenant'', MICROSOFT_WEBHOOK_SECRET = ''s3cret'',
      MICROSOFT_EVENT_CACHE = example_kv\<rparr>"

definition example_item :: "string \<Rightarrow> string \<Rightarrow> notification" where
  "example_item ty eid =
     \<lparr>subscriptionId = Some ''sub-1'', clientState = Some ''s3cret'', changeType = Some ty,
      lifecycleEvent = None, resourceData_id = Some eid\<rparr>"

definition handshake_request :: request where
  "handshake_request = \<lparr>validationToken = Some ''abc123'', x_mcp_name = None, body = BadJson\<rparr>"

definition failing_env :: Env where
  "failing_env = example_env\<lparr>MICROSOFT_EVENT_CACHE := example_kv\<lparr>reads_ok := False, writes_ok := False\<rparr>\<rparr>"

definition mixed_batch :: request where
  "mixed_batch =
     \<lparr>validationToken = None, x_mcp_name = Some ''acct'',
      body = JsonBody (Some [(example_item ''created'' ''E1'')\<lparr>clientState := Some ''wrong''\<rparr>,
                             example_item ''created'' ''E2''])\<rparr>"

definition one_event :: request where
  "one_event =
     \<lparr>validationToken = None, x_mcp_name = Some ''acct'',
      body = JsonBody (Some [example_item ''created'' ''E1''])\<rparr>"

definition unreadable_env :: Env where
  "unreadable_env = example_env\<lparr>MICROSOFT_EVENT_CACHE := example_kv\<lparr>reads_ok := False\<rparr>\<rparr>"

definition unwritable_env :: Env where
  "unwritable_env = example_env\<lparr>MICROSOFT_EVENT_CACHE := example_kv\<lparr>writes_ok := False\<rparr>\<rparr>"

definition no_header_request :: request where
  "no_header_request =
     \<lparr>validationToken = None, x_mcp_name = None,
      body = JsonBody (Some [example_item ''created'' ''M1''])\<rparr>"

definition repeated_email :: request where
  "repeated_email =
     \<lparr>validationToken = None, x_mcp_name = Some ''acct'',
      body = JsonBody (Some [example_item ''created'' ''M1'', example_item ''created'' ''M1''])\<rparr>"

definition fresh_loop :: calendar_loop where
  "fresh_loop = \<lparr>events = [], loop_subscriptionId = None, loop_env = example_env\<rparr>"

definition after_created :: calendar_loop where
  "after_created = snd (calendar_item (Some ''acct'') 0 (example_item ''created'' ''E2'') fresh_loop)"

definition example_service :: MicrosoftService where
  "example_service =
     \<lparr>service_env = example_env, accessToken = ''tok-1'', refreshToken = ''ref-1'',
      userId = ''user-1''\<rparr>"

definition ok_page :: "string list \<Rightarrow> string option \<Rightarrow> api_response fetched" where
  "ok_page es nxt = Response \<lparr>status = 200, statusText = ''OK'', json_body = Some (JsonObject (Some es) nxt)\<rparr>"

definition three_pages :: network where
  "three_pages =
     \<lparr>api = (\<lambda>log req.
         if url req = ''https://graph.example/page2''
         then ok_page [''e3''] (Some ''https://graph.example/page3'')
         else if url req = ''https://graph.example/page3''
         then ok_page [''e4'', ''e5''] None
         else ok_page [''e1'', ''e2''] (Some ''https://graph.example/page2'')),
      token_endpoint = (\<lambda>log req. NetworkError)\<rparr>"

definition token_reply :: "string \<Rightarrow> string option \<Rightarrow> token_response fetched" where
  "token_reply a r =
     Response \<lparr>token_status = 200, token_text = [],
               token_body = Some \<lparr>access_token = a, refresh_token = r\<rparr>\<rparr>"

definition rotating :: network where
  "rotating =
     \<lparr>api = (\<lambda>log req. NetworkError),
      token_endpoint = (\<lambda>log req. token_reply ''tok-2'' (Some ''ref-2''))\<rparr>"

definition not_rotating :: network where
  "not_rotating =
     \<lparr>api = (\<lambda>log req. NetworkError),
      token_endpoint = (\<lambda>log req. token_reply ''tok-2'' None)\<rparr>"

definition unauthorized :: network where
  "unauthorized =
     \<lparr>api = (\<lambda>log req.
         Response \<lparr>status = 401, statusText = ''Unauthorized'',
                   json_body = Some (JsonObject None None)\<rparr>),
      token_endpoint = (\<lambda>log req. token_reply ''tok-2'' None)\<rparr>"

definition get_me :: RequestInit where
  "get_me = \<lparr>init_method = Some ''GET'', init_headers = []\<rparr>"

definition accepted_E1 :: "CalendarProcessData http_response" where
  "accepted_E1 =
     CJson (ok_response
       (Some \<lparr>calendar_name = ''acct'', calendar_subscriptionId = ''sub-1'',
              calendar_events = [\<lparr>eventId = ''E1'', eventType = Some ''created''\<rparr>]\<rparr>))"

definition wrong_item :: notification where
  "wrong_item = (example_item ''created'' ''E1'')\<lparr>clientState := Some ''wrong''\<rparr>"

definition removed_item :: notification where
  "removed_item =
     \<lparr>subscriptionId = Some ''sub-1'', clientState = Some ''s3cret'', changeType = None,
      lifecycleEvent = Some ''subscriptionRemoved'', resourceData_id = None\<rparr>"

definition mixed_lifecycle :: request where
  "mixed_lifecycle =
     \<lparr>validationToken = None, x_mcp_name = Some ''acct'',
      body = JsonBody (Some [wrong_item, removed_item])\<rparr>"

definition dropped_batch :: request where
  "dropped_batch =
     \<lparr>validationToken = None, x_mcp_name = Some ''acct'', body = JsonBody (Some [wrong_item])\<rparr>"

section \<open>Facts about the cache helpers and the loop bodies\<close>

lemma getEventCache_eq:
  "getEventCache now env sn ty eid =
     (if reads_ok (MICROSOFT_EVENT_CACHE env) then Inr (cache_lookup now env sn ty eid) else Inl KVError,
      logged env [KvGet (cache_key sn ty eid)])"
  by (simp add: getEventCache_def kv_get_def cache_lookup_def logged_def Let_def)

lemma cache_lookup_logged [simp]: "cache_lookup now (logged env os) sn ty eid = cache_lookup now env sn ty eid"
  by (simp add: cache_lookup_def logged_def)

lemma logged_logged [simp]: "logged (logged env os) os' = logged env (os @ os')"
  by (simp add: logged_def)

lemma logged_fields [simp]:
  "MICROSOFT_WEBHOOK_SECRET (logged env os) = MICROSOFT_WEBHOOK_SECRET env"
  "reads_ok (MICROSOFT_EVENT_CACHE (logged env os)) = reads_ok (MICROSOFT_EVENT_CACHE env)"
  "writes_ok (MICROSOFT_EVENT_CACHE (logged env os)) = writes_ok (MICROSOFT_EVENT_CACHE env)"
  "entries (MICROSOFT_EVENT_CACHE (logged env os)) = entries (MICROSOFT_EVENT_CACHE env)"
  "ops (MICROSOFT_EVENT_CACHE (logged env os)) = ops (MICROSOFT_EVENT_CACHE env) @ os"
  by (simp_all add: logged_def)

lemma putEventCache_eq:
  "putEventCache now env sn ty eid v a =
     (if writes_ok (MICROSOFT_EVENT_CACHE env)
      then (None, stored now env (cache_key sn ty eid) v (ttl_seconds a))
      else (Some KVError, logged env [KvPut (cache_key sn ty eid) v (ttl_seconds a)]))"
  by (simp add: putEventCache_def kv_put_def stored_def logged_def Let_def ttl_seconds_def)

lemma skip_if_cached_eq:
  "skip_if_cached now sn ty eid st rest =
     (let st' = st\<lparr>loop_env := logged (loop_env st) [KvGet (cache_key sn ty eid)]\<rparr> in
      if \<not> reads_ok (MICROSOFT_EVENT_CACHE (loop_env st)) then (Some KVError, st')
      else if cache_holds now (loop_env st) sn ty eid then (None, st')
      else rest st')"
  by (simp add: skip_if_cached_def getEventCache_eq cache_holds_def Let_def)

lemma accept_event_eq:
  "accept_event now sn b eid st =
     (let pushed = events st @ [\<lparr>eventId = eid, eventType = changeType b\<rparr>];
          k = cache_key sn (js_template (changeType b)) eid in
      if writes_ok (MICROSOFT_EVENT_CACHE (loop_env st))
      then (None, st\<lparr>events := pushed,
                      loop_env := stored now (loop_env st) k (JSON_stringify b) (Some 120),
                      loop_subscriptionId :=
                        (if \<not> truthy (loop_subscriptionId st) then subscriptionId b
                         else loop_subscriptionId st)\<rparr>)
      else (Some KVError, st\<lparr>events := pushed,
                      loop_env := logged (loop_env st) [KvPut k (JSON_stringify b) (Some 120)]\<rparr>))"
  by (simp add: accept_event_def putEventCache_eq Let_def ttl_seconds_def DEBOUNCE_TTL_def)

lemma stored_fields [simp]:
  "MICROSOFT_WEBHOOK_SECRET (stored now env k v ttl) = MICROSOFT_WEBHOOK_SECRET env"
  "reads_ok (MICROSOFT_EVENT_CACHE (stored now env k v ttl)) = reads_ok (MICROSOFT_EVENT_CACHE env)"
  "writes_ok (MICROSOFT_EVENT_CACHE (stored now env k v ttl)) = writes_ok (MICROSOFT_EVENT_CACHE env)"
  "entries (MICROSOFT_EVENT_CACHE (stored now env k v ttl)) =
     (entries (MICROSOFT_EVENT_CACHE env))(k \<mapsto>
        \<lparr>payload = v, expiration = (case ttl of None \<Rightarrow> None | Some n \<Rightarrow> Some (now + n))\<rparr>)"
  "ops (MICROSOFT_EVENT_CACHE (stored now env k v ttl)) = ops (MICROSOFT_EVENT_CACHE env) @ [KvPut k v ttl]"
  by (simp_all add: stored_def)

lemma email_item_mismatch: "clientState b \<noteq> Some secret \<Longrightarrow> email_item secret st b = st"
  by (simp add: email_item_def split: prod.splits)

lemma lifecycle_item_mismatch: "clientState b \<noteq> Some secret \<Longrightarrow> lifecycle_item secret st b = st"
  by (simp add: lifecycle_item_def split: prod.splits)

lemma foldl_filter_skip:
  "(\<And>st b. \<not> P b \<Longrightarrow> f st b = st) \<Longrightarrow> foldl f st (filter P xs) = foldl f st xs"
  by (induction xs arbitrary: st) simp_all

lemma email_batch_matching: "email_batch env name (matching env items) = email_batch env name items"
  by (simp add: email_batch_def matching_def foldl_filter_skip email_item_mismatch)

lemma lifecycle_batch_matching: "lifecycle_batch env name (matching env items) = lifecycle_batch env name items"
  by (simp add: lifecycle_batch_def matching_def foldl_filter_skip lifecycle_item_mismatch)

lemma acknowledged_ok [simp]: "acknowledged (CJson (ok_response pd))"
  by (simp add: acknowledged_def ok_response_def)

lemma email_batch_ok: "acknowledged (CJson (email_batch env name items))"
  by (simp add: email_batch_def split: prod.splits option.splits)

lemma lifecycle_batch_ok: "acknowledged (CJson (lifecycle_batch env name items))"
  by (simp add: lifecycle_batch_def split: prod.splits option.splits)

lemma calendar_response_ok: "acknowledged (CJson (calendar_response name st))"
  by (simp add: calendar_response_def split: option.splits)

lemma calendar_item_cases:
  "calendar_item name now b st = r \<Longrightarrow>
   same_store (loop_env st) (loop_env (snd r))"
  by (auto simp: calendar_item_def skip_if_cached_eq accept_event_eq Let_def same_store_def
      split: option.splits if_splits)


lemma calendar_item_dropped:
  "\<not> reaches_cache (loop_env st) b \<Longrightarrow> calendar_item name now b st = (None, st)"
  by (auto simp: calendar_item_def reaches_cache_def truthy_def split: option.splits)

lemma calendar_item_same_store:
  "same_store (loop_env st) (loop_env (snd (calendar_item name now b st)))"
  using calendar_item_cases by blast

lemma matching_same_store: "same_store env env' \<Longrightarrow> matching env' items = matching env items"
  by (simp add: matching_def same_store_def)

lemma calendar_items_matching:
  "calendar_items name now (matching (loop_env st) items) st = calendar_items name now items st"
proof (induction items arbitrary: st)
  case Nil
  show ?case by (simp add: matching_def)
next
  case (Cons b items)
  show ?case
  proof (cases "clientState b = Some (MICROSOFT_WEBHOOK_SECRET (loop_env st))")
    case False
    then have "calendar_item name now b st = (None, st)"
      by (simp add: calendar_item_dropped reaches_cache_def)
    with False Cons.IH [of st] show ?thesis by (simp add: matching_def)
  next
    case True
    obtain err st' where r: "calendar_item name now b st = (err, st')" by (cases "calendar_item name now b st")
    have "same_store (loop_env st) (loop_env st')"
      using calendar_item_same_store [of st name now b] r by simp
    then have m: "matching (loop_env st') items = matching (loop_env st) items"
      by (rule matching_same_store)
    from True have "matching (loop_env st) (b # items) = b # matching (loop_env st) items"
      by (simp add: matching_def)
    with r m Cons.IH [of st'] show ?thesis by (simp split: option.splits)
  qed
qed

lemma calendar_item_store_ok:
  "reads_ok (MICROSOFT_EVENT_CACHE (loop_env st)) \<Longrightarrow> writes_ok (MICROSOFT_EVENT_CACHE (loop_env st)) \<Longrightarrow>
   fst (calendar_item name now b st) = None"
  by (auto simp: calendar_item_def skip_if_cached_eq accept_event_eq Let_def split: option.splits)

lemma calendar_items_store_ok:
  "reads_ok (MICROSOFT_EVENT_CACHE (loop_env st)) \<Longrightarrow> writes_ok (MICROSOFT_EVENT_CACHE (loop_env st)) \<Longrightarrow>
   fst (calendar_items name now items st) = None"
proof (induction items arbitrary: st)
  case Nil
  show ?case by simp
next
  case (Cons b items)
  obtain err st' where r: "calendar_item name now b st = (err, st')" by (cases "calendar_item name now b st")
  from Cons.prems have "err = None" using calendar_item_store_ok [of st name now b] r by simp
  moreover have "same_store (loop_env st) (loop_env st')"
    using calendar_item_same_store [of st name now b] r by simp
  ultimately show ?case using Cons.IH [of st'] Cons.prems r by (simp add: same_store_def)
qed

lemma calendar_item_read_failure:
  "\<not> reads_ok (MICROSOFT_EVENT_CACHE (loop_env st)) \<Longrightarrow> reaches_cache (loop_env st) b \<Longrightarrow>
   fst (calendar_item name now b st) = Some KVError"
  by (auto simp: calendar_item_def skip_if_cached_eq Let_def reaches_cache_def truthy_def split: option.splits)

lemma calendar_items_all_dropped:
  "\<forall>b \<in> set items. \<not> reaches_cache (loop_env st) b \<Longrightarrow> calendar_items name now items st = (None, st)"
  by (induction items) (simp_all add: calendar_item_dropped)

lemma calendar_items_read_failure:
  "\<not> reads_ok (MICROSOFT_EVENT_CACHE (loop_env st)) \<Longrightarrow>
   fst (calendar_items name now items st) =
     (if \<exists>b \<in> set items. reaches_cache (loop_env st) b then Some KVError else None)"
proof (induction items)
  case Nil
  show ?case by simp
next
  case (Cons b items)
  show ?case
  proof (cases "reaches_cache (loop_env st) b")
    case True
    with Cons.prems have "fst (calendar_item name now b st) = Some KVError"
      by (simp add: calendar_item_read_failure)
    with True show ?thesis by (auto split: prod.splits option.splits)
  next
    case False
    then have "calendar_item name now b st = (None, st)" by (rule calendar_item_dropped)
    with False Cons show ?thesis by simp
  qed
qed

lemma calendar_item_write_failure:
  "\<not> writes_ok (MICROSOFT_EVENT_CACHE (loop_env st)) \<Longrightarrow>
   calendar_item name now b st = (err, st') \<Longrightarrow>
   (err = None \<and> events st' = events st \<and> loop_subscriptionId st' = loop_subscriptionId st) \<or> err = Some KVError"
  by (auto simp: calendar_item_def skip_if_cached_eq accept_event_eq Let_def split: option.splits if_splits)

lemma calendar_items_write_failure:
  "\<not> writes_ok (MICROSOFT_EVENT_CACHE (loop_env st)) \<Longrightarrow>
   calendar_items name now items st = (err, st') \<Longrightarrow>
   (err = None \<and> events st' = events st \<and> loop_subscriptionId st' = loop_subscriptionId st) \<or> err = Some KVError"
proof (induction items arbitrary: st)
  case Nil
  then show ?case by simp
next
  case (Cons b items)
  obtain e1 st1 where r: "calendar_item name now b st = (e1, st1)" by (cases "calendar_item name now b st")
  have s: "same_store (loop_env st) (loop_env st1)"
    using calendar_item_same_store [of st name now b] r by simp
  from calendar_item_write_failure [OF Cons.prems(1) r]
  show ?case
  proof
    assume a: "e1 = None \<and> events st1 = events st \<and> loop_subscriptionId st1 = loop_subscriptionId st"
    with Cons.prems r have "calendar_items name now items st1 = (err, st')" by simp
    moreover from s Cons.prems(1) have "\<not> writes_ok (MICROSOFT_EVENT_CACHE (loop_env st1))"
      by (simp add: same_store_def)
    ultimately show ?thesis using Cons.IH [of st1] a by auto
  next
    assume "e1 = Some KVError"
    with Cons.prems r show ?thesis by simp
  qed
qed


lemma cache_holds_logged [simp]:
  "cache_holds now (logged env os) sn ty eid = cache_holds now env sn ty eid"
  by (simp add: cache_holds_def)

lemma onError_KVError: "onError KVError = ErrorJson 500 ''server_error''"
  by (simp add: onError_def)

lemma email_item_reaching:
  "email_item (MICROSOFT_WEBHOOK_SECRET env) (ids, sub) b =
     (if reaches_cache env b
      then (ids @ [js_template (resourceData_id b)], if truthy sub then sub else subscriptionId b)
      else (ids, sub))"
  by (auto simp: email_item_def reaches_cache_def truthy_def js_template_def split: option.splits)

lemma email_ids_Cons:
  "email_ids env (b # items) =
     (if reaches_cache env b then js_template (resourceData_id b) # email_ids env items
      else email_ids env items)"
  by (auto simp: email_ids_def List.map_filter_simps reaches_cache_def truthy_def js_template_def
      split: option.splits)

lemma forwarded_subscription_Cons:
  "forwarded_subscription env (b # items) =
     (if reaches_cache env b \<and> truthy (subscriptionId b) then Some b
      else forwarded_subscription env items)"
  by (simp add: forwarded_subscription_def)

lemma email_fold_ids:
  "fst (foldl (email_item (MICROSOFT_WEBHOOK_SECRET env)) (ids, sub) items) = ids @ email_ids env items"
proof (induction items arbitrary: ids sub)
  case Nil
  show ?case by (simp add: email_ids_def List.map_filter_simps)
next
  case (Cons b items)
  show ?case
    by (cases "reaches_cache env b") (simp_all add: email_item_reaching email_ids_Cons Cons.IH)
qed

lemma email_fold_sub_kept:
  "truthy sub \<Longrightarrow>
   snd (foldl (email_item (MICROSOFT_WEBHOOK_SECRET (env::Env))) (ids, sub) items) = sub"
proof (induction items arbitrary: ids)
  case Nil
  show ?case by simp
next
  case (Cons b items)
  then show ?case
    by (cases "reaches_cache env b") (simp_all add: email_item_reaching)
qed

lemma email_fold_sub_found:
  "\<not> truthy sub \<Longrightarrow>
   (case forwarded_subscription env items of
      None \<Rightarrow> \<not> truthy (snd (foldl (email_item (MICROSOFT_WEBHOOK_SECRET env)) (ids, sub) items))
    | Some b \<Rightarrow> snd (foldl (email_item (MICROSOFT_WEBHOOK_SECRET env)) (ids, sub) items) = subscriptionId b)"
proof (induction items arbitrary: ids sub)
  case Nil
  then show ?case by (simp add: forwarded_subscription_def)
next
  case (Cons b items)
  show ?case
  proof (cases "reaches_cache env b")
    case False
    with Cons.IH [OF Cons.prems, of ids] show ?thesis
      by (simp add: email_item_reaching forwarded_subscription_Cons split: option.splits)
  next
    case True
    show ?thesis
    proof (cases "truthy (subscriptionId b)")
      case t: True
      with True Cons.prems show ?thesis
        by (simp add: email_item_reaching forwarded_subscription_Cons email_fold_sub_kept)
    next
      case f: False
      from Cons.IH [OF f, of "ids @ [js_template (resourceData_id b)]"] True f Cons.prems show ?thesis
        by (simp add: email_item_reaching forwarded_subscription_Cons split: option.splits)
    qed
  qed
qed


lemma forwarded_subscription_ids:
  "forwarded_subscription env items = Some b \<Longrightarrow> email_ids env items \<noteq> []"
proof (induction items)
  case Nil
  then show ?case by (simp add: forwarded_subscription_def)
next
  case (Cons a items)
  then show ?case
    by (cases "reaches_cache env a") (simp_all add: email_ids_Cons forwarded_subscription_Cons)
qed

lemma forwarded_subscription_truthy:
  "forwarded_subscription env items = Some b \<Longrightarrow> truthy (subscriptionId b)"
  by (auto simp: forwarded_subscription_def find_Some_iff)

lemma email_batch_eq:
  "email_batch env name items =
     ok_response
       (case forwarded_subscription env items of
          None \<Rightarrow> None
        | Some b \<Rightarrow>
            if truthy name
            then Some \<lparr>email_name = js_template name,
                       email_subscriptionId = js_template (subscriptionId b),
                       emailIds = email_ids env items\<rparr>
            else None)"
proof -
  obtain ids sub where f: "foldl (email_item (MICROSOFT_WEBHOOK_SECRET env)) ([], None) items = (ids, sub)"
    by (cases "foldl (email_item (MICROSOFT_WEBHOOK_SECRET env)) ([], None) items")
  have i: "ids = email_ids env items"
    using email_fold_ids [where env = env and items = items and ids = "[]" and sub = None] f by simp
  have n: "\<not> truthy None" by (simp add: truthy_def)
  show ?thesis
  proof (cases "forwarded_subscription env items")
    case None
    with email_fold_sub_found [OF n, where env = env and items = items and ids = "[]"] f have "\<not> truthy sub" by simp
    with None f show ?thesis
      by (auto simp: email_batch_def truthy_def split: option.splits)
  next
    case (Some b)
    with email_fold_sub_found [OF n, where env = env and items = items and ids = "[]"] f have s: "sub = subscriptionId b" by simp
    from Some have "truthy (subscriptionId b)" and "email_ids env items \<noteq> []"
      by (simp_all add: forwarded_subscription_truthy forwarded_subscription_ids)
    with Some f i s show ?thesis
      by (auto simp: email_batch_def truthy_def js_template_def split: option.splits)
  qed
qed

lemma JSON_stringify_nonempty: "JSON_stringify b \<noteq> []"
  by (simp add: JSON_stringify_def)

lemma calendar_item_accepted:
  assumes "reads_ok (MICROSOFT_EVENT_CACHE (loop_env st))"
    and "writes_ok (MICROSOFT_EVENT_CACHE (loop_env st))"
    and "clientState b = Some (MICROSOFT_WEBHOOK_SECRET (loop_env st))"
    and "resourceData_id b = Some eid" and "eid \<noteq> []"
    and "\<not> cache_holds now (loop_env st) (server_name name) (js_template (changeType b)) eid"
    and "\<not> tie_break now (loop_env st) (server_name name) (changeType b) eid"
  shows "calendar_item name now b st =
          (None, st\<lparr>events := events st @ [\<lparr>eventId = eid, eventType = changeType b\<rparr>],
             loop_env := stored now (logged (loop_env st)
                (KvGet (cache_key (server_name name) (js_template (changeType b)) eid) #
                  (if changeType b = Some ''updated''
                   then [KvGet (cache_key (server_name name) ''created'' eid),
                         KvGet (cache_key (server_name name) ''deleted'' eid)]
                   else if changeType b = Some ''created'' \<or> changeType b = Some ''deleted''
                   then [KvGet (cache_key (server_name name) ''updated'' eid)] else [])))
                (cache_key (server_name name) (js_template (changeType b)) eid)
                (JSON_stringify b) (Some 120),
             loop_subscriptionId := (if \<not> truthy (loop_subscriptionId st) then subscriptionId b
                                     else loop_subscriptionId st)\<rparr>)"
proof -
  consider "changeType b = Some ''updated''" | "changeType b = Some ''created''"
    | "changeType b = Some ''deleted''"
    | "changeType b \<noteq> Some ''updated''" "changeType b \<noteq> Some ''created''"
      "changeType b \<noteq> Some ''deleted''"
    by blast
  then show ?thesis
  proof cases
    case 1
    with assms show ?thesis
      by (simp add: calendar_item_def skip_if_cached_eq accept_event_eq tie_break_def Let_def
          js_template_def)
  next
    case 2
    with assms show ?thesis
      by (simp add: calendar_item_def skip_if_cached_eq accept_event_eq tie_break_def Let_def
          js_template_def)
  next
    case 3
    with assms show ?thesis
      by (simp add: calendar_item_def skip_if_cached_eq accept_event_eq tie_break_def Let_def
          js_template_def)
  next
    case 4
    with assms show ?thesis
      by (simp add: calendar_item_def skip_if_cached_eq accept_event_eq tie_break_def Let_def)
  qed
qed


lemma calendar_item_self_duplicate:
  assumes "reads_ok (MICROSOFT_EVENT_CACHE (loop_env st))"
    and "clientState b = Some (MICROSOFT_WEBHOOK_SECRET (loop_env st))"
    and "resourceData_id b = Some eid" and "eid \<noteq> []"
    and "cache_holds now (loop_env st) (server_name name) (js_template (changeType b)) eid"
  shows "calendar_item name now b st =
           (None, st\<lparr>loop_env := logged (loop_env st)
              [KvGet (cache_key (server_name name) (js_template (changeType b)) eid)]\<rparr>)"
  using assms by (simp add: calendar_item_def skip_if_cached_eq Let_def)

lemma calendar_item_tie_break:
  assumes "reads_ok (MICROSOFT_EVENT_CACHE (loop_env st))"
    and "clientState b = Some (MICROSOFT_WEBHOOK_SECRET (loop_env st))"
    and "resourceData_id b = Some eid" and "eid \<noteq> []"
    and "\<not> cache_holds now (loop_env st) (server_name name) (js_template (changeType b)) eid"
    and "tie_break now (loop_env st) (server_name name) (changeType b) eid"
  shows "fst (calendar_item name now b st) = None \<and>
         events (snd (calendar_item name now b st)) = events st \<and>
         loop_subscriptionId (snd (calendar_item name now b st)) = loop_subscriptionId st \<and>
         entries (MICROSOFT_EVENT_CACHE (loop_env (snd (calendar_item name now b st)))) =
           entries (MICROSOFT_EVENT_CACHE (loop_env st))"
  using assms
  by (auto simp: calendar_item_def skip_if_cached_eq tie_break_def Let_def)

lemma example_item_fields:
  "clientState (example_item ty eid) = Some ''s3cret''"
  "resourceData_id (example_item ty eid) = Some eid"
  "changeType (example_item ty eid) = Some ty"
  "subscriptionId (example_item ty eid) = Some ''sub-1''"
  by (simp_all add: example_item_def)

lemma fresh_loop_fields:
  "events fresh_loop = []"
  "loop_subscriptionId fresh_loop = None"
  "loop_env fresh_loop = example_env"
  "MICROSOFT_WEBHOOK_SECRET example_env = ''s3cret''"
  "reads_ok (MICROSOFT_EVENT_CACHE example_env)"
  "writes_ok (MICROSOFT_EVENT_CACHE example_env)"
  "entries (MICROSOFT_EVENT_CACHE example_env) k = None"
  by (simp_all add: fresh_loop_def example_env_def example_kv_def)

lemma example_env_holds_nothing: "\<not> cache_holds t example_env sn ty eid"
  by (simp add: cache_holds_def cache_lookup_def fresh_loop_fields truthy_def)

lemma after_created_eq:
  "after_created =
     fresh_loop\<lparr>events := [\<lparr>eventId = ''E2'', eventType = Some ''created''\<rparr>],
       loop_env := stored 0 (logged example_env
           [KvGet ''acct:created:E2'', KvGet ''acct:updated:E2''])
           ''acct:created:E2'' (JSON_stringify (example_item ''created'' ''E2'')) (Some 120),
       loop_subscriptionId := Some ''sub-1''\<rparr>"
proof -
  have "calendar_item (Some ''acct'') 0 (example_item ''created'' ''E2'') fresh_loop =
     (None, fresh_loop\<lparr>events := events fresh_loop @ [\<lparr>eventId = ''E2'', eventType = changeType (example_item ''created'' ''E2'')\<rparr>],
             loop_env := stored 0 (logged (loop_env fresh_loop)
                (KvGet (cache_key (server_name (Some ''acct'')) (js_template (changeType (example_item ''created'' ''E2''))) ''E2'') #
                  (if changeType (example_item ''created'' ''E2'') = Some ''updated''
                   then [KvGet (cache_key (server_name (Some ''acct'')) ''created'' ''E2''),
                         KvGet (cache_key (server_name (Some ''acct'')) ''deleted'' ''E2'')]
                   else if changeType (example_item ''created'' ''E2'') = Some ''created'' \<or> changeType (example_item ''created'' ''E2'') = Some ''deleted''
                   then [KvGet (cache_key (server_name (Some ''acct'')) ''updated'' ''E2'')] else [])))
                (cache_key (server_name (Some ''acct'')) (js_template (changeType (example_item ''created'' ''E2''))) ''E2'')
                (JSON_stringify (example_item ''created'' ''E2'')) (Some 120),
             loop_subscriptionId := (if \<not> truthy (loop_subscriptionId fresh_loop) then subscriptionId (example_item ''created'' ''E2'')
                                     else loop_subscriptionId fresh_loop)\<rparr>)"
    by (rule calendar_item_accepted)
       (simp_all add: example_item_fields fresh_loop_fields example_env_holds_nothing tie_break_def)
  then show ?thesis
    by (simp add: after_created_def example_item_fields fresh_loop_fields cache_key_def
        server_name_def js_template_def truthy_def)
qed

lemma first_created_events:
  "eid \<noteq> [] \<Longrightarrow>
   events (snd (calendar_item (Some ''acct'') 0 (example_item ''created'' eid) fresh_loop)) =
     [\<lparr>eventId = eid, eventType = Some ''created''\<rparr>]"
  by (subst calendar_item_accepted [where eid = eid])
     (simp_all add: example_item_fields fresh_loop_fields example_env_holds_nothing tie_break_def)

lemma response_ok_not_401: "response_ok st \<Longrightarrow> st \<noteq> 401"
  by (auto simp: response_ok_def)

lemma makeRequest_ok:
  "api net log (api_call u options (accessToken svc)) = Response r \<Longrightarrow> response_ok (status r) \<Longrightarrow>
   makeRequest net u options (svc, log) =
     (res_json r, svc, log @ [ApiFetch (api_call u options (accessToken svc))])"
  by (simp add: makeRequest_def Let_def response_ok_not_401)

lemma page_loop_linked:
  "linked_pages net svc log u pages \<Longrightarrow>
   page_loop net (Some u) evs (svc, log) =
     Some (Inr (evs @ page_items pages), svc,
           log @ map (\<lambda>x. ApiFetch (get_call svc x)) (page_urls u pages))"
proof (induction pages arbitrary: u evs log)
  case Nil
  then show ?case by simp
next
  case (Cons p ps)
  obtain v nxt where p: "p = (v, nxt)" by (cases p)
  from Cons.prems p obtain r where
    u: "u \<noteq> []" and a: "api net log (get_call svc u) = Response r"
    and ok: "response_ok (status r)" and j: "json_body r = Some (JsonObject v nxt)"
    by (auto split: fetched.splits)
  have m: "makeRequest net u \<lparr>init_method = Some ''GET'', init_headers = []\<rparr> (svc, log) =
      (Inr (JsonObject v nxt), svc, log @ [ApiFetch (get_call svc u)])"
    using makeRequest_ok [OF a [unfolded get_call_def] ok] j by (simp add: res_json_def get_call_def)
  show ?case
  proof (cases "ps = []")
    case True
    with Cons.prems p have "\<not> truthy nxt" by simp
    with True p u m show ?thesis
      by (subst page_loop.simps, simp add: truthy_def js_template_def)
         (subst page_loop.simps, simp add: truthy_def page_items_def page_urls_def split: option.splits)
  next
    case False
    with Cons.prems p have t: "truthy nxt"
      and l: "linked_pages net svc (log @ [ApiFetch (get_call svc u)]) (js_template nxt) ps"
      by simp_all
    from t obtain n where n: "nxt = Some n" by (auto simp: truthy_def split: option.splits)
    note ih = Cons.IH [OF l, of "case v of None \<Rightarrow> evs | Some es \<Rightarrow> evs @ es"]
    from False p u m t n ih show ?thesis
      by (subst page_loop.simps)
         (auto simp: truthy_def js_template_def page_items_def page_urls_def split: option.splits)
  qed
qed


lemma initialUrl_example:
  "initialUrl example_service s e l \<noteq> []"
  "initialUrl example_service s e l \<noteq> ''https://graph.example/page2''"
  "initialUrl example_service s e l \<noteq> ''https://graph.example/page3''"
  by (simp_all add: initialUrl_def baseUrl_def)

lemma spread_keeps:
  "k \<notin> fst ` set extra \<Longrightarrow>
   map_of (foldl (\<lambda>hs (k', v). AList.update k' v hs) base extra) k = map_of base k"
proof (induction extra arbitrary: base)
  case Nil
  show ?case by simp
next
  case (Cons kv extra)
  obtain k' v where kv: "kv = (k', v)" by (cases kv)
  with Cons.prems have "k \<noteq> k'" and "k \<notin> fst ` set extra" by auto
  with Cons.IH [of "AList.update k' v base"] kv show ?case
    by (simp add: update_conv')
qed

lemma request_headers_authorization:
  "''Authorization'' \<notin> fst ` set (init_headers options) \<Longrightarrow>
   map_of (request_headers token options) ''Authorization'' = Some (''Bearer '' @ token)"
  by (simp add: request_headers_def spread_keeps)

lemma refreshAccessToken_log:
  "snd (snd (refreshAccessToken net (svc, log))) = log @ [TokenFetch (refresh_call svc)]"
  by (simp add: refreshAccessToken_def Let_def split: fetched.splits option.splits)

lemma refreshAccessToken_failed:
  "fst (refreshAccessToken net (svc, log)) = Some err \<Longrightarrow>
   fst (snd (refreshAccessToken net (svc, log))) = svc"
  by (simp add: refreshAccessToken_def Let_def split: fetched.splits option.splits if_splits)

lemma unauthorized_makeRequest:
  "makeRequest unauthorized u get_me (example_service, []) =
     (Inr (JsonObject None None), example_service\<lparr>accessToken := ''tok-2''\<rparr>,
      [ApiFetch (api_call u get_me ''tok-1''), TokenFetch (refresh_call example_service),
       ApiFetch (api_call u get_me ''tok-2'')])"
  by (simp add: makeRequest_def refreshAccessToken_def unauthorized_def token_reply_def
      example_service_def response_ok_def res_json_def truthy_def Let_def)

lemma calendar_notify_one_event:
  "reads_ok (MICROSOFT_EVENT_CACHE env) \<Longrightarrow> writes_ok (MICROSOFT_EVENT_CACHE env) \<Longrightarrow>
   MICROSOFT_WEBHOOK_SECRET env = ''s3cret'' \<Longrightarrow>
   fst (calendar_notify env t one_event) =
     CJson (ok_response
       (if cache_holds t env ''acct'' ''created'' ''E1'' \<or> cache_holds t env ''acct'' ''updated'' ''E1''
        then None
        else Some \<lparr>calendar_name = ''acct'', calendar_subscriptionId = ''sub-1'',
                    calendar_events = [\<lparr>eventId = ''E1'', eventType = Some ''created''\<rparr>]\<rparr>)) \<and>
   entries (MICROSOFT_EVENT_CACHE (snd (calendar_notify env t one_event))) =
     (if cache_holds t env ''acct'' ''created'' ''E1'' \<or> cache_holds t env ''acct'' ''updated'' ''E1''
      then entries (MICROSOFT_EVENT_CACHE env)
      else (entries (MICROSOFT_EVENT_CACHE env))(''acct:created:E1'' \<mapsto>
             \<lparr>payload = JSON_stringify (example_item ''created'' ''E1''), expiration = Some (t + 120)\<rparr>)) \<and>
   same_store env (snd (calendar_notify env t one_event))"
  by (simp add: calendar_notify_def one_event_def truthy_def calendar_item_def example_item_fields
      skip_if_cached_eq accept_event_eq server_name_def js_template_def Let_def
      calendar_response_def cache_key_def same_store_def)

lemma foldl_all_skipped:
  "(\<And>x. x \<in> set xs \<Longrightarrow> f st x = st) \<Longrightarrow> foldl f st xs = st"
  by (induction xs) simp_all

lemma email_batch_after_dropped:
  assumes "\<forall>d \<in> set pre. clientState d \<noteq> Some (MICROSOFT_WEBHOOK_SECRET env)"
    and "clientState b = Some (MICROSOFT_WEBHOOK_SECRET env)"
    and "resourceData_id b = Some eid" and "eid \<noteq> []"
  shows "email_batch env name (pre @ [b]) =
           ok_response
             (if truthy name \<and> truthy (subscriptionId b)
              then Some \<lparr>email_name = js_template name,
                         email_subscriptionId = js_template (subscriptionId b),
                         emailIds = [eid]\<rparr>
              else None)"
proof -
  have "foldl (email_item (MICROSOFT_WEBHOOK_SECRET env)) ([], None) pre = ([], None)"
    using assms(1) by (intro foldl_all_skipped) (simp add: email_item_mismatch)
  with assms(2-4) show ?thesis
    by (auto simp: email_batch_def email_item_def truthy_def js_template_def split: option.splits)
qed

lemma lifecycle_batch_after_dropped:
  assumes "\<forall>d \<in> set pre. clientState d \<noteq> Some (MICROSOFT_WEBHOOK_SECRET env)"
    and "clientState b = Some (MICROSOFT_WEBHOOK_SECRET env)"
    and "lifecycleEvent b = Some ev" and "ev \<noteq> []" and "ev \<noteq> ''missed''"
  shows "lifecycle_batch env name (pre @ [b]) =
           ok_response
             (if truthy name \<and> truthy (subscriptionId b)
              then Some \<lparr>lifecycle_name = js_template name,
                         lifecycle_subscriptionId = js_template (subscriptionId b),
                         lifecycle_events = [ev]\<rparr>
              else None)"
proof -
  have "foldl (lifecycle_item (MICROSOFT_WEBHOOK_SECRET env)) ([], None) pre = ([], None)"
    using assms(1) by (intro foldl_all_skipped) (simp add: lifecycle_item_mismatch)
  with assms(2-5) show ?thesis
    by (auto simp: lifecycle_batch_def lifecycle_item_def truthy_def js_template_def
        split: option.splits)
qed

lemma calendar_items_dropped_prefix:
  "\<forall>d \<in> set pre. \<not> reaches_cache (loop_env st) d \<Longrightarrow>
   calendar_items name now (pre @ rest) st = calendar_items name now rest st"
  by (induction pre) (simp_all add: calendar_item_dropped)

lemma calendar_response_after_dropped:
  assumes "\<forall>d \<in> set pre. clientState d \<noteq> Some (MICROSOFT_WEBHOOK_SECRET env)"
    and "clientState b = Some (MICROSOFT_WEBHOOK_SECRET env)"
    and "resourceData_id b = Some eid" and "eid \<noteq> []"
    and "reads_ok (MICROSOFT_EVENT_CACHE env)" and "writes_ok (MICROSOFT_EVENT_CACHE env)"
    and "\<not> cache_holds now env (server_name name) (js_template (changeType b)) eid"
    and "\<not> tie_break now env (server_name name) (changeType b) eid"
    and "\<not> truthy (validationToken req)" and "body req = JsonBody (Some (pre @ [b]))"
    and "x_mcp_name req = name"
  shows "fst (calendar_notify env now req) =
           CJson (ok_response
             (if truthy name \<and> truthy (subscriptionId b)
              then Some \<lparr>calendar_name = js_template name,
                         calendar_subscriptionId = js_template (subscriptionId b),
                         calendar_events = [\<lparr>eventId = eid, eventType = changeType b\<rparr>]\<rparr>
              else None))"
proof -
  let ?st = "\<lparr>events = [], loop_subscriptionId = None, loop_env = env\<rparr>"
  have d: "\<forall>d \<in> set pre. \<not> reaches_cache (loop_env ?st) d"
    using assms(1) by (simp add: reaches_cache_def)
  have a: "calendar_item name now b ?st =
      (None, ?st\<lparr>events := events ?st @ [\<lparr>eventId = eid, eventType = changeType b\<rparr>],
             loop_env := stored now (logged (loop_env ?st)
                (KvGet (cache_key (server_name name) (js_template (changeType b)) eid) #
                  (if changeType b = Some ''updated''
                   then [KvGet (cache_key (server_name name) ''created'' eid),
                         KvGet (cache_key (server_name name) ''deleted'' eid)]
                   else if changeType b = Some ''created'' \<or> changeType b = Some ''deleted''
                   then [KvGet (cache_key (server_name name) ''updated'' eid)] else [])))
                (cache_key (server_name name) (js_template (changeType b)) eid)
                (JSON_stringify b) (Some 120),
             loop_subscriptionId := (if \<not> truthy (loop_subscriptionId ?st) then subscriptionId b
                                     else loop_subscriptionId ?st)\<rparr>)"
    by (rule calendar_item_accepted) (use assms in simp_all)
  have "calendar_items name now (pre @ [b]) ?st = calendar_items name now [b] ?st"
    using d by (rule calendar_items_dropped_prefix)
  then have c: "calendar_items name now (pre @ [b]) ?st = calendar_item name now b ?st"
    by (simp add: a)
  show ?thesis
    using assms(9-11)
    by (simp add: calendar_notify_def c a)
       (auto simp: calendar_response_def truthy_def js_template_def split: option.splits)
qed

section \<open>Cache entries and their time to live\<close>

text \<open>
  C7 (as the code has it). \<open>putEventCache\<close> called without a TTL stores the entry for 60
  seconds, the helper's own default; \<open>null\<close> is a third state, distinct from the default,
  and stores the entry without expiration; a number is the TTL in seconds. The debounce
  window \<open>DEBOUNCE_TTL\<close> is 120 seconds, and the calendar handler passes it explicitly: an
  accepted event is stored under \<open>accountName:changeType:eventId\<close> with its JSON text as
  payload and expires 120 seconds after the write.
\<close>

theorem cache_ttl_semantics:
  assumes "reads_ok (MICROSOFT_EVENT_CACHE env)" and "writes_ok (MICROSOFT_EVENT_CACHE env)"
  shows "fst (getEventCache t (snd (putEventCache now env sn ty eid v a)) sn ty eid) =
           Inr (if (case a of Undefined \<Rightarrow> t < now + 60 | Null \<Rightarrow> True | Ttl n \<Rightarrow> t < now + n)
                then Some v else None) \<and>
         DEBOUNCE_TTL = 120 \<and>
         entries (MICROSOFT_EVENT_CACHE (loop_env (snd (accept_event now sn b eid
              \<lparr>events = evs, loop_subscriptionId = sub, loop_env = env\<rparr>))))
            (sn @ '':'' @ js_template (changeType b) @ '':'' @ eid) =
           Some \<lparr>payload = JSON_stringify b, expiration = Some (now + 120)\<rparr>"
  using assms
  by (simp add: getEventCache_eq putEventCache_eq stored_def cache_lookup_def live_def
      ttl_seconds_def accept_event_eq cache_key_def DEBOUNCE_TTL_def Let_def split: ttl_arg.splits)

theorem cache_ttl_semantics_witness:
  "reads_ok (MICROSOFT_EVENT_CACHE example_env) \<and> writes_ok (MICROSOFT_EVENT_CACHE example_env) \<and>
   fst (getEventCache 59 (snd (putEventCache 0 example_env ''acct'' ''created'' ''E1'' ''{}'' Undefined))
         ''acct'' ''created'' ''E1'') = Inr (Some ''{}'') \<and>
   fst (getEventCache 60 (snd (putEventCache 0 example_env ''acct'' ''created'' ''E1'' ''{}'' Undefined))
         ''acct'' ''created'' ''E1'') = Inr None \<and>
   fst (getEventCache 1000000 (snd (putEventCache 0 example_env ''acct'' ''created'' ''E1'' ''{}'' Null))
         ''acct'' ''created'' ''E1'') = Inr (Some ''{}'')"
proof -
  have r: "reads_ok (MICROSOFT_EVENT_CACHE example_env)"
    and w: "writes_ok (MICROSOFT_EVENT_CACHE example_env)"
    by (simp_all add: example_env_def example_kv_def)
  show ?thesis
    using r w
      cache_ttl_semantics [OF r w, of 59 0 "''acct''" "''created''" "''E1''" "''{}''" Undefined]
      cache_ttl_semantics [OF r w, of 60 0 "''acct''" "''created''" "''E1''" "''{}''" Undefined]
      cache_ttl_semantics [OF r w, of 1000000 0 "''acct''" "''created''" "''E1''" "''{}''" Null]
    by simp
qed

text \<open>
  The claim as written gives the default as the 120 second window. An entry written at
  time 0 without a TTL is already gone at time 90.
\<close>

theorem default_ttl_counterexample:
  "fst (getEventCache 90
         (snd (putEventCache 0 example_env ''acct'' ''created'' ''E1'' ''{}'' Undefined))
         ''acct'' ''created'' ''E1'') = Inr None"
  by (simp add: getEventCache_eq putEventCache_eq example_env_def example_kv_def cache_lookup_def
      ttl_seconds_def stored_def live_def)

section \<open>The validation handshake\<close>

text \<open>
  C5. A request to any of the four notification endpoints that carries a validation token
  (the parameter \<open>validationToken\<close> with a non-empty value, which is the handlers' test
  \<open>if (validationToken)\<close>) is answered with code 200, content type \<open>text\<close> and the token
  itself as content. Nothing else of the request or of the environment is looked at: the
  body may be unparseable, the header missing, the cache unavailable, and the calendar
  handler makes no cache call.
\<close>

theorem handshake_precedence:
  assumes "validationToken req = Some token" and "token \<noteq> []"
  shows "email_notify env req =
           CJson \<lparr>reqResponseCode = 200, reqResponseContent = token,
                  reqResponseContentType = ''text'', processData = None\<rparr> \<and>
         email_lifecycle env req =
           CJson \<lparr>reqResponseCode = 200, reqResponseContent = token,
                  reqResponseContentType = ''text'', processData = None\<rparr> \<and>
         calendar_notify env now req =
           (CJson \<lparr>reqResponseCode = 200, reqResponseContent = token,
                   reqResponseContentType = ''text'', processData = None\<rparr>, env) \<and>
         calendar_lifecycle env req =
           CJson \<lparr>reqResponseCode = 200, reqResponseContent = token,
                  reqResponseContentType = ''text'', processData = None\<rparr>"
  using assms
  by (simp add: email_notify_def email_lifecycle_def calendar_lifecycle_def lifecycle_notify_def
      calendar_notify_def validation_response_def truthy_def js_template_def)

theorem handshake_precedence_witness:
  "validationToken handshake_request = Some ''abc123'' \<and> ''abc123'' \<noteq> [] \<and>
   body handshake_request = BadJson \<and>
   \<not> reads_ok (MICROSOFT_EVENT_CACHE failing_env) \<and>
   email_notify failing_env handshake_request =
     CJson \<lparr>reqResponseCode = 200, reqResponseContent = ''abc123'',
            reqResponseContentType = ''text'', processData = None\<rparr> \<and>
   calendar_notify failing_env 0 handshake_request =
     (CJson \<lparr>reqResponseCode = 200, reqResponseContent = ''abc123'',
             reqResponseContentType = ''text'', processData = None\<rparr>, failing_env)"
proof -
  have t: "validationToken handshake_request = Some ''abc123''" and n: "''abc123'' \<noteq> []"
    by (simp_all add: handshake_request_def)
  show ?thesis
    using t n handshake_precedence [OF t n, of failing_env 0]
    by (simp add: handshake_request_def failing_env_def example_kv_def)
qed

section \<open>Dropped items and the acknowledgment\<close>

text \<open>
  C6 (as the code has it). On each of the four endpoints a batch gives the same result as
  the batch without the items whose \<open>clientState\<close> is not the configured secret: such an
  item is skipped, raises nothing and stops nothing after it. In particular a valid item
  that follows any number of such items is processed: its id, lifecycle event or calendar
  event is what the response forwards. The email and lifecycle endpoints acknowledge every
  batch with 202 and \<open>{"ok":true}\<close>, also when every item is dropped. The calendar
  endpoint does so whenever the cache store answers its calls or no item of the batch
  carries the secret, also when no event is accepted.
\<close>

theorem clientState_drop_and_acknowledgment:
  assumes "\<not> truthy (validationToken req)" and "body req = JsonBody (Some items)"
  shows "email_notify env req = email_notify env (req\<lparr>body := JsonBody (Some (matching env items))\<rparr>) \<and>
         acknowledged (email_notify env req) \<and>
         email_lifecycle env req = email_lifecycle env (req\<lparr>body := JsonBody (Some (matching env items))\<rparr>) \<and>
         acknowledged (email_lifecycle env req) \<and>
         calendar_lifecycle env req = calendar_lifecycle env (req\<lparr>body := JsonBody (Some (matching env items))\<rparr>) \<and>
         acknowledged (calendar_lifecycle env req) \<and>
         calendar_notify env now req = calendar_notify env now (req\<lparr>body := JsonBody (Some (matching env items))\<rparr>) \<and>
         (reads_ok (MICROSOFT_EVENT_CACHE env) \<and> writes_ok (MICROSOFT_EVENT_CACHE env) \<or> matching env items = []
          \<longrightarrow> acknowledged (fst (calendar_notify env now req))) \<and>
         (items = pre @ [b] \<and>
          (\<forall>d \<in> set pre. clientState d \<noteq> Some (MICROSOFT_WEBHOOK_SECRET env)) \<and>
          clientState b = Some (MICROSOFT_WEBHOOK_SECRET env) \<longrightarrow>
            (resourceData_id b = Some eid \<and> eid \<noteq> [] \<longrightarrow>
               email_notify env req =
                 CJson (ok_response
                   (if truthy (x_mcp_name req) \<and> truthy (subscriptionId b)
                    then Some \<lparr>email_name = js_template (x_mcp_name req),
                               email_subscriptionId = js_template (subscriptionId b),
                               emailIds = [eid]\<rparr>
                    else None))) \<and>
            (lifecycleEvent b = Some ev \<and> ev \<noteq> [] \<and> ev \<noteq> ''missed'' \<longrightarrow>
               email_lifecycle env req =
                 CJson (ok_response
                   (if truthy (x_mcp_name req) \<and> truthy (subscriptionId b)
                    then Some \<lparr>lifecycle_name = js_template (x_mcp_name req),
                               lifecycle_subscriptionId = js_template (subscriptionId b),
                               lifecycle_events = [ev]\<rparr>
                    else None)) \<and>
               calendar_lifecycle env req = email_lifecycle env req) \<and>
            (resourceData_id b = Some eid \<and> eid \<noteq> [] \<and>
             reads_ok (MICROSOFT_EVENT_CACHE env) \<and> writes_ok (MICROSOFT_EVENT_CACHE env) \<and>
             \<not> cache_holds now env (server_name (x_mcp_name req)) (js_template (changeType b)) eid \<and>
             \<not> tie_break now env (server_name (x_mcp_name req)) (changeType b) eid \<longrightarrow>
               fst (calendar_notify env now req) =
                 CJson (ok_response
                   (if truthy (x_mcp_name req) \<and> truthy (subscriptionId b)
                    then Some \<lparr>calendar_name = js_template (x_mcp_name req),
                               calendar_subscriptionId = js_template (subscriptionId b),
                               calendar_events = [\<lparr>eventId = eid, eventType = changeType b\<rparr>]\<rparr>
                    else None))))"
proof -
  let ?st = "\<lparr>events = [], loop_subscriptionId = None, loop_env = env\<rparr>"
  let ?req = "req\<lparr>body := JsonBody (Some (matching env items))\<rparr>"
  have m: "calendar_items (x_mcp_name req) now (matching env items) ?st =
           calendar_items (x_mcp_name req) now items ?st"
    using calendar_items_matching [of "x_mcp_name req" now ?st items] by simp
  have e: "email_notify env req = email_notify env ?req"
    using assms by (simp add: email_notify_def email_batch_matching)
  have ea: "acknowledged (email_notify env req)"
    using assms by (simp add: email_notify_def email_batch_ok)
  have l: "lifecycle_notify env req = lifecycle_notify env ?req"
    using assms by (simp add: lifecycle_notify_def lifecycle_batch_matching)
  have la: "acknowledged (lifecycle_notify env req)"
    using assms by (simp add: lifecycle_notify_def lifecycle_batch_ok)
  have c: "calendar_notify env now req = calendar_notify env now ?req"
    using assms m by (simp add: calendar_notify_def split: prod.splits option.splits)
  have ok: "acknowledged (fst (calendar_notify env now req))"
    if "reads_ok (MICROSOFT_EVENT_CACHE env)" and "writes_ok (MICROSOFT_EVENT_CACHE env)"
    using assms that calendar_items_store_ok [of ?st "x_mcp_name req" now items]
    by (auto simp: calendar_notify_def calendar_response_ok split: prod.splits option.splits)
  have none: "acknowledged (fst (calendar_notify env now req))" if "matching env items = []"
  proof -
    from m that have "calendar_items (x_mcp_name req) now items ?st = (None, ?st)" by simp
    with assms show ?thesis by (simp add: calendar_notify_def calendar_response_ok)
  qed
  have em: "email_notify env req =
      CJson (ok_response
        (if truthy (x_mcp_name req) \<and> truthy (subscriptionId b)
         then Some \<lparr>email_name = js_template (x_mcp_name req),
                    email_subscriptionId = js_template (subscriptionId b),
                    emailIds = [eid]\<rparr>
         else None))"
    if "items = pre @ [b]"
      and "\<forall>d \<in> set pre. clientState d \<noteq> Some (MICROSOFT_WEBHOOK_SECRET env)"
      and "clientState b = Some (MICROSOFT_WEBHOOK_SECRET env)"
      and "resourceData_id b = Some eid" and "eid \<noteq> []"
    using assms that(1) email_batch_after_dropped [OF that(2-5), of "x_mcp_name req"]
    by (simp add: email_notify_def)
  have lc: "lifecycle_notify env req =
      CJson (ok_response
        (if truthy (x_mcp_name req) \<and> truthy (subscriptionId b)
         then Some \<lparr>lifecycle_name = js_template (x_mcp_name req),
                    lifecycle_subscriptionId = js_template (subscriptionId b),
                    lifecycle_events = [ev]\<rparr>
         else None))"
    if "items = pre @ [b]"
      and "\<forall>d \<in> set pre. clientState d \<noteq> Some (MICROSOFT_WEBHOOK_SECRET env)"
      and "clientState b = Some (MICROSOFT_WEBHOOK_SECRET env)"
      and "lifecycleEvent b = Some ev" and "ev \<noteq> []" and "ev \<noteq> ''missed''"
    using assms that(1) lifecycle_batch_after_dropped [OF that(2-6), of "x_mcp_name req"]
    by (simp add: lifecycle_notify_def)
  have cal: "fst (calendar_notify env now req) =
      CJson (ok_response
        (if truthy (x_mcp_name req) \<and> truthy (subscriptionId b)
         then Some \<lparr>calendar_name = js_template (x_mcp_name req),
                    calendar_subscriptionId = js_template (subscriptionId b),
                    calendar_events = [\<lparr>eventId = eid, eventType = changeType b\<rparr>]\<rparr>
         else None))"
    if "items = pre @ [b]"
      and "\<forall>d \<in> set pre. clientState d \<noteq> Some (MICROSOFT_WEBHOOK_SECRET env)"
      and "clientState b = Some (MICROSOFT_WEBHOOK_SECRET env)"
      and "resourceData_id b = Some eid" and "eid \<noteq> []"
      and "reads_ok (MICROSOFT_EVENT_CACHE env)" and "writes_ok (MICROSOFT_EVENT_CACHE env)"
      and "\<not> cache_holds now env (server_name (x_mcp_name req)) (js_template (changeType b)) eid"
      and "\<not> tie_break now env (server_name (x_mcp_name req)) (changeType b) eid"
    using calendar_response_after_dropped [OF that(2-9) assms(1) assms(2) [unfolded that(1)] refl]
    by simp
  show ?thesis
    unfolding email_lifecycle_def calendar_lifecycle_def
    using e ea l la c ok none em lc cal by blast
qed

theorem clientState_drop_and_acknowledgment_witness:
  "\<not> truthy (validationToken mixed_batch) \<and>
   body mixed_batch = JsonBody (Some ([wrong_item] @ [example_item ''created'' ''E2''])) \<and>
   clientState wrong_item \<noteq> Some (MICROSOFT_WEBHOOK_SECRET example_env) \<and>
   clientState (example_item ''created'' ''E2'') = Some (MICROSOFT_WEBHOOK_SECRET example_env) \<and>
   reads_ok (MICROSOFT_EVENT_CACHE example_env) \<and> writes_ok (MICROSOFT_EVENT_CACHE example_env) \<and>
   email_notify example_env mixed_batch =
     CJson (ok_response (Some \<lparr>email_name = ''acct'', email_subscriptionId = ''sub-1'',
                               emailIds = [''E2'']\<rparr>)) \<and>
   fst (calendar_notify example_env 0 mixed_batch) =
     CJson (ok_response (Some \<lparr>calendar_name = ''acct'', calendar_subscriptionId = ''sub-1'',
                               calendar_events = [\<lparr>eventId = ''E2'', eventType = Some ''created''\<rparr>]\<rparr>)) \<and>
   acknowledged (fst (calendar_notify example_env 0 mixed_batch)) \<and>
   body mixed_lifecycle = JsonBody (Some ([wrong_item] @ [removed_item])) \<and>
   email_lifecycle example_env mixed_lifecycle =
     CJson (ok_response (Some \<lparr>lifecycle_name = ''acct'', lifecycle_subscriptionId = ''sub-1'',
                               lifecycle_events = [''subscriptionRemoved'']\<rparr>)) \<and>
   calendar_lifecycle example_env mixed_lifecycle = email_lifecycle example_env mixed_lifecycle \<and>
   body dropped_batch = JsonBody (Some [wrong_item]) \<and>
   matching failing_env [wrong_item] = [] \<and>
   \<not> reads_ok (MICROSOFT_EVENT_CACHE failing_env) \<and>
   acknowledged (fst (calendar_notify failing_env 0 dropped_batch)) \<and>
   acknowledged (email_notify failing_env dropped_batch)"
proof -
  let ?good = "example_item ''created'' ''E2''"
  have t: "\<not> truthy (validationToken mixed_batch)"
    and tl: "\<not> truthy (validationToken mixed_lifecycle)"
    and td: "\<not> truthy (validationToken dropped_batch)"
    by (simp_all add: mixed_batch_def mixed_lifecycle_def dropped_batch_def truthy_def)
  have b: "body mixed_batch = JsonBody (Some ([wrong_item] @ [?good]))"
    and bl: "body mixed_lifecycle = JsonBody (Some ([wrong_item] @ [removed_item]))"
    and bd: "body dropped_batch = JsonBody (Some [wrong_item])"
    by (simp_all add: mixed_batch_def mixed_lifecycle_def dropped_batch_def wrong_item_def)
  have w: "\<forall>d \<in> set [wrong_item]. clientState d \<noteq> Some (MICROSOFT_WEBHOOK_SECRET example_env)"
    by (simp add: wrong_item_def fresh_loop_fields example_item_fields)
  have g: "clientState ?good = Some (MICROSOFT_WEBHOOK_SECRET example_env)"
    "resourceData_id ?good = Some ''E2''" "''E2'' \<noteq> []"
    "clientState removed_item = Some (MICROSOFT_WEBHOOK_SECRET example_env)"
    "lifecycleEvent removed_item = Some ''subscriptionRemoved''"
    "''subscriptionRemoved'' \<noteq> []" "''subscriptionRemoved'' \<noteq> ''missed''"
    by (simp_all add: example_item_fields fresh_loop_fields removed_item_def)
  have s: "reads_ok (MICROSOFT_EVENT_CACHE example_env)" "writes_ok (MICROSOFT_EVENT_CACHE example_env)"
    by (simp_all add: fresh_loop_fields)
  have nh: "\<not> cache_holds 0 example_env (server_name (x_mcp_name mixed_batch))
              (js_template (changeType ?good)) ''E2''"
    "\<not> tie_break 0 example_env (server_name (x_mcp_name mixed_batch)) (changeType ?good) ''E2''"
    by (simp_all add: example_env_holds_nothing tie_break_def)
  have md: "matching failing_env [wrong_item] = []" "\<not> reads_ok (MICROSOFT_EVENT_CACHE failing_env)"
    by (simp_all add: matching_def failing_env_def example_env_def wrong_item_def example_item_def)
  have names: "truthy (x_mcp_name mixed_batch)" "js_template (x_mcp_name mixed_batch) = ''acct''"
    "truthy (x_mcp_name mixed_lifecycle)" "js_template (x_mcp_name mixed_lifecycle) = ''acct''"
    "truthy (subscriptionId ?good)" "js_template (subscriptionId ?good) = ''sub-1''"
    "truthy (subscriptionId removed_item)" "js_template (subscriptionId removed_item) = ''sub-1''"
    "changeType ?good = Some ''created''"
    by (simp_all add: mixed_batch_def mixed_lifecycle_def removed_item_def example_item_fields
        truthy_def js_template_def)
  note T1 = clientState_drop_and_acknowledgment [OF t b, where env = example_env and now = 0
      and pre = "[wrong_item]" and b = ?good and eid = "''E2''"]
  note T2 = clientState_drop_and_acknowledgment [OF tl bl, where env = example_env
      and pre = "[wrong_item]" and b = removed_item and ev = "''subscriptionRemoved''"]
  note T3 = clientState_drop_and_acknowledgment [OF td bd, where env = failing_env and now = 0]
  have e1: "email_notify example_env mixed_batch =
      CJson (ok_response
        (if truthy (x_mcp_name mixed_batch) \<and> truthy (subscriptionId ?good)
         then Some \<lparr>email_name = js_template (x_mcp_name mixed_batch),
                    email_subscriptionId = js_template (subscriptionId ?good),
                    emailIds = [''E2'']\<rparr>
         else None))"
    using T1 w g by blast
  have c1: "fst (calendar_notify example_env 0 mixed_batch) =
      CJson (ok_response
        (if truthy (x_mcp_name mixed_batch) \<and> truthy (subscriptionId ?good)
         then Some \<lparr>calendar_name = js_template (x_mcp_name mixed_batch),
                    calendar_subscriptionId = js_template (subscriptionId ?good),
                    calendar_events = [\<lparr>eventId = ''E2'', eventType = changeType ?good\<rparr>]\<rparr>
         else None))"
    using T1 w g s nh by blast
  have a1: "acknowledged (fst (calendar_notify example_env 0 mixed_batch))"
    using T1 s by blast
  have l1: "email_lifecycle example_env mixed_lifecycle =
      CJson (ok_response
        (if truthy (x_mcp_name mixed_lifecycle) \<and> truthy (subscriptionId removed_item)
         then Some \<lparr>lifecycle_name = js_template (x_mcp_name mixed_lifecycle),
                    lifecycle_subscriptionId = js_template (subscriptionId removed_item),
                    lifecycle_events = [''subscriptionRemoved'']\<rparr>
         else None))"
    and l2: "calendar_lifecycle example_env mixed_lifecycle = email_lifecycle example_env mixed_lifecycle"
    using T2 w g by blast+
  have d1: "acknowledged (fst (calendar_notify failing_env 0 dropped_batch))"
    and d2: "acknowledged (email_notify failing_env dropped_batch)"
    using T3 md by blast+
  show ?thesis
    using t b w g(1) s e1 c1 a1 bl l1 l2 bd md d1 d2
    by (simp add: names)
qed

text \<open>
  The claim as written has the acknowledgment for every batch. On the calendar endpoint a
  batch with one item that carries the secret is answered 500 when the cache lookup fails.
\<close>

theorem acknowledgment_counterexample:
  "\<not> truthy (validationToken mixed_batch) \<and>
   body mixed_batch =
     JsonBody (Some [(example_item ''created'' ''E1'')\<lparr>clientState := Some ''wrong''\<rparr>,
                     example_item ''created'' ''E2'']) \<and>
   fst (calendar_notify unreadable_env 0 mixed_batch) = ErrorJson 500 ''server_error'' \<and>
   \<not> acknowledged (fst (calendar_notify unreadable_env 0 mixed_batch))"
  by (simp add: calendar_notify_def mixed_batch_def unreadable_env_def example_env_def
      example_kv_def example_item_def truthy_def calendar_item_def skip_if_cached_eq
      server_name_def js_template_def Let_def onError_def acknowledged_def)

section \<open>Cache failures\<close>

text \<open>
  C8 (as the code has it). No cache call of the calendar handler is guarded: a lookup or a
  write that fails leaves the handler as an exception, and the application's error handler
  answers 500 \<open>server_error\<close>; nothing is forwarded. With lookups failing, the answer
  is 500 exactly when some item of the batch passes the \<open>clientState\<close> and id checks, and
  the plain acknowledgment otherwise. With writes failing, the answer is 500 or the plain
  acknowledgment without events, and it is 500 for a single item that would be accepted.
\<close>

theorem cache_failure_propagates:
  assumes "\<not> truthy (validationToken req)" and "body req = JsonBody (Some items)"
  shows "(\<not> reads_ok (MICROSOFT_EVENT_CACHE env) \<longrightarrow>
            fst (calendar_notify env now req) =
              (if \<exists>b \<in> set items. reaches_cache env b then ErrorJson 500 ''server_error''
               else CJson (ok_response None))) \<and>
         (\<not> writes_ok (MICROSOFT_EVENT_CACHE env) \<longrightarrow>
            fst (calendar_notify env now req) = ErrorJson 500 ''server_error'' \<or>
            fst (calendar_notify env now req) = CJson (ok_response None)) \<and>
         (reads_ok (MICROSOFT_EVENT_CACHE env) \<and> \<not> writes_ok (MICROSOFT_EVENT_CACHE env) \<and>
          items = [b] \<and> clientState b = Some (MICROSOFT_WEBHOOK_SECRET env) \<and>
          resourceData_id b = Some eid \<and> eid \<noteq> [] \<and>
          \<not> cache_holds now env (server_name (x_mcp_name req)) (js_template (changeType b)) eid \<and>
          \<not> tie_break now env (server_name (x_mcp_name req)) (changeType b) eid \<longrightarrow>
            fst (calendar_notify env now req) = ErrorJson 500 ''server_error'')"
proof -
  let ?st = "\<lparr>events = [], loop_subscriptionId = None, loop_env = env\<rparr>"
  obtain err st' where r: "calendar_items (x_mcp_name req) now items ?st = (err, st')"
    by (cases "calendar_items (x_mcp_name req) now items ?st")
  have resp: "fst (calendar_notify env now req) =
     (case err of Some e \<Rightarrow> onError e | None \<Rightarrow> CJson (calendar_response (x_mcp_name req) st'))"
    using assms r by (simp add: calendar_notify_def split: option.splits)
  have rd: "fst (calendar_notify env now req) =
              (if \<exists>b \<in> set items. reaches_cache env b then ErrorJson 500 ''server_error''
               else CJson (ok_response None))"
    if nr: "\<not> reads_ok (MICROSOFT_EVENT_CACHE env)"
  proof (cases "\<exists>b \<in> set items. reaches_cache env b")
    case True
    with nr have "err = Some KVError"
      using calendar_items_read_failure [of ?st "x_mcp_name req" now items] r by simp
    with True resp show ?thesis by (simp add: onError_KVError)
  next
    case False
    then have "calendar_items (x_mcp_name req) now items ?st = (None, ?st)"
      using calendar_items_all_dropped [of items ?st "x_mcp_name req" now] by simp
    with r have "err = None" and "st' = ?st" by simp_all
    with False resp show ?thesis by (simp add: calendar_response_def)
  qed
  have wr: "fst (calendar_notify env now req) = ErrorJson 500 ''server_error'' \<or>
            fst (calendar_notify env now req) = CJson (ok_response None)"
    if nw: "\<not> writes_ok (MICROSOFT_EVENT_CACHE env)"
  proof -
    from nw have "(err = None \<and> events st' = events ?st \<and> loop_subscriptionId st' = loop_subscriptionId ?st)
        \<or> err = Some KVError"
      using calendar_items_write_failure [of ?st "x_mcp_name req" now items err st'] r by simp
    then show ?thesis
      using resp by (auto simp: onError_KVError calendar_response_def)
  qed
  have one: "fst (calendar_notify env now req) = ErrorJson 500 ''server_error''"
    if "reads_ok (MICROSOFT_EVENT_CACHE env)" and "\<not> writes_ok (MICROSOFT_EVENT_CACHE env)"
      and "items = [b]" and "clientState b = Some (MICROSOFT_WEBHOOK_SECRET env)"
      and "resourceData_id b = Some eid" and "eid \<noteq> []"
      and "\<not> cache_holds now env (server_name (x_mcp_name req)) (js_template (changeType b)) eid"
      and "\<not> tie_break now env (server_name (x_mcp_name req)) (changeType b) eid"
  proof -
    from that have "fst (calendar_item (x_mcp_name req) now b ?st) = Some KVError"
      by (simp add: calendar_item_def skip_if_cached_eq accept_event_eq tie_break_def Let_def)
    with that(3) r have "err = Some KVError" by (auto split: prod.splits option.splits)
    with resp show ?thesis by (simp add: onError_KVError)
  qed
  show ?thesis using rd wr one by blast
qed


theorem cache_failure_propagates_witness:
  "\<not> truthy (validationToken one_event) \<and>
   body one_event = JsonBody (Some [example_item ''created'' ''E1'']) \<and>
   \<not> reads_ok (MICROSOFT_EVENT_CACHE unreadable_env) \<and>
   (\<exists>b \<in> set [example_item ''created'' ''E1'']. reaches_cache unreadable_env b) \<and>
   fst (calendar_notify unreadable_env 0 one_event) = ErrorJson 500 ''server_error'' \<and>
   reads_ok (MICROSOFT_EVENT_CACHE unwritable_env) \<and>
   \<not> writes_ok (MICROSOFT_EVENT_CACHE unwritable_env) \<and>
   fst (calendar_notify unwritable_env 0 one_event) = ErrorJson 500 ''server_error''"
proof -
  have t: "\<not> truthy (validationToken one_event)"
    by (simp add: one_event_def truthy_def)
  have b: "body one_event = JsonBody (Some [example_item ''created'' ''E1''])"
    by (simp add: one_event_def)
  have r: "\<not> reads_ok (MICROSOFT_EVENT_CACHE unreadable_env)"
    "\<exists>b \<in> set [example_item ''created'' ''E1'']. reaches_cache unreadable_env b"
    by (simp_all add: unreadable_env_def example_env_def example_kv_def reaches_cache_def
        example_item_def truthy_def)
  have w: "reads_ok (MICROSOFT_EVENT_CACHE unwritable_env)"
    "\<not> writes_ok (MICROSOFT_EVENT_CACHE unwritable_env)"
    "clientState (example_item ''created'' ''E1'') = Some (MICROSOFT_WEBHOOK_SECRET unwritable_env)"
    "resourceData_id (example_item ''created'' ''E1'') = Some ''E1''"
    "\<not> cache_holds 0 unwritable_env (server_name (x_mcp_name one_event))
        (js_template (changeType (example_item ''created'' ''E1''))) ''E1''"
    "\<not> tie_break 0 unwritable_env (server_name (x_mcp_name one_event))
        (changeType (example_item ''created'' ''E1'')) ''E1''"
    by (simp_all add: unwritable_env_def example_env_def example_kv_def example_item_def
        cache_holds_def cache_lookup_def tie_break_def truthy_def)
  show ?thesis
    using t b r w
      cache_failure_propagates [OF t b, of unreadable_env 0 "example_item ''created'' ''E1''" "''E1''"]
      cache_failure_propagates [OF t b, of unwritable_env 0 "example_item ''created'' ''E1''" "''E1''"]
    by simp
qed

text \<open>
  The claim as written has a failed lookup count as "not seen" and a failed write ignored.
  For one valid \<open>created\<close> notification, the handler answers 500 when lookups fail and
  when writes fail.
\<close>

theorem cache_failure_counterexample:
  "fst (calendar_notify unreadable_env 0 one_event) = ErrorJson 500 ''server_error'' \<and>
   fst (calendar_notify unwritable_env 0 one_event) = ErrorJson 500 ''server_error''"
  by (simp add: calendar_notify_def one_event_def unreadable_env_def unwritable_env_def
      example_env_def example_kv_def example_item_def truthy_def calendar_item_def
      skip_if_cached_eq accept_event_eq cache_holds_def cache_lookup_def cache_key_def
      server_name_def js_template_def Let_def onError_def)

section \<open>The email path\<close>

text \<open>
  C10 (as the code has it). For a POST to the email endpoint without a validation token,
  every item whose \<open>clientState\<close> is the secret and whose \<open>resourceData.id\<close> is non-empty
  adds its id to \<open>emailIds\<close>, in order and with repetitions: nothing is deduplicated. The
  list is forwarded as \<open>processData\<close> when the \<open>x-mcp-name\<close> header is non-empty and one
  of these items has a non-empty \<open>subscriptionId\<close> (the first such is forwarded with it);
  otherwise the answer is the plain acknowledgment and nothing is forwarded. The response
  does not depend on the event cache, which the handler neither reads nor writes.
\<close>

theorem email_path_has_no_deduplication:
  assumes "\<not> truthy (validationToken req)" and "body req = JsonBody (Some items)"
  shows "email_notify env req =
           CJson (ok_response
             (case forwarded_subscription env items of
                None \<Rightarrow> None
              | Some b \<Rightarrow>
                  if truthy (x_mcp_name req)
                  then Some \<lparr>email_name = js_template (x_mcp_name req),
                             email_subscriptionId = js_template (subscriptionId b),
                             emailIds = email_ids env items\<rparr>
                  else None)) \<and>
         email_ids env (items @ items) = email_ids env items @ email_ids env items \<and>
         email_notify (env\<lparr>MICROSOFT_EVENT_CACHE := kv\<rparr>) req = email_notify env req"
proof -
  have "email_batch (env\<lparr>MICROSOFT_EVENT_CACHE := kv\<rparr>) (x_mcp_name req) items =
        email_batch env (x_mcp_name req) items"
    by (simp add: email_batch_def)
  with assms show ?thesis
    by (simp add: email_notify_def email_batch_eq email_ids_def List.map_filter_def)
qed

theorem email_path_has_no_deduplication_witness:
  "\<not> truthy (validationToken repeated_email) \<and>
   body repeated_email =
     JsonBody (Some [example_item ''created'' ''M1'', example_item ''created'' ''M1'']) \<and>
   email_notify example_env repeated_email =
     CJson (ok_response (Some \<lparr>email_name = ''acct'', email_subscriptionId = ''sub-1'',
                               emailIds = [''M1'', ''M1'']\<rparr>))"
proof -
  have t: "\<not> truthy (validationToken repeated_email)"
    by (simp add: repeated_email_def truthy_def)
  have b: "body repeated_email =
     JsonBody (Some [example_item ''created'' ''M1'', example_item ''created'' ''M1''])"
    by (simp add: repeated_email_def)
  have r: "reaches_cache example_env (example_item ''created'' ''M1'')"
    by (simp add: reaches_cache_def example_env_def example_item_def truthy_def)
  have s: "truthy (subscriptionId (example_item ''created'' ''M1''))"
    by (simp add: example_item_def truthy_def)
  show ?thesis
    using t b email_path_has_no_deduplication [OF t b, of example_env]
    by (simp add: forwarded_subscription_Cons email_ids_Cons r s)
       (simp add: repeated_email_def example_item_def truthy_def js_template_def email_ids_def
          List.map_filter_simps)
qed


text \<open>
  The claim as written has every such item forwarded on every POST. Without the
  \<open>x-mcp-name\<close> header an item with the secret and an id is not forwarded.
\<close>

theorem email_forwarding_counterexample:
  "clientState (example_item ''created'' ''M1'') = Some (MICROSOFT_WEBHOOK_SECRET example_env) \<and>
   resourceData_id (example_item ''created'' ''M1'') = Some ''M1'' \<and>
   email_notify example_env no_header_request = CJson (ok_response None)"
  by (simp add: email_notify_def email_batch_def email_item_def no_header_request_def
      example_item_def example_env_def truthy_def)

section \<open>Reconciliation of calendar notifications\<close>

text \<open>
  C1. Take a calendar notification that carries the secret and a non-empty id, while the
  store answers and the cache holds no entry for the notification's own key
  \<open>accountName:changeType:eventId\<close>. It is suppressed (no event is added, no entry is
  written) exactly when the tie-break table says so: \<open>updated\<close> while the cache holds
  \<open>created\<close> or \<open>deleted\<close> for the same account and id, \<open>created\<close> while it holds
  \<open>updated\<close>, \<open>deleted\<close> while it holds \<open>updated\<close>. Otherwise, also for any other change
  type, it is accepted: the event is appended and the entry for its own key is written
  with the debounce TTL.
\<close>

theorem cross_type_suppression:
  assumes "reads_ok (MICROSOFT_EVENT_CACHE (loop_env st))"
    and "writes_ok (MICROSOFT_EVENT_CACHE (loop_env st))"
    and "clientState b = Some (MICROSOFT_WEBHOOK_SECRET (loop_env st))"
    and "resourceData_id b = Some eid" and "eid \<noteq> []"
    and "\<not> cache_holds now (loop_env st) (server_name name) (js_template (changeType b)) eid"
  shows "fst (calendar_item name now b st) = None \<and>
         events (snd (calendar_item name now b st)) =
           (if tie_break now (loop_env st) (server_name name) (changeType b) eid then events st
            else events st @ [\<lparr>eventId = eid, eventType = changeType b\<rparr>]) \<and>
         entries (MICROSOFT_EVENT_CACHE (loop_env (snd (calendar_item name now b st)))) =
           (if tie_break now (loop_env st) (server_name name) (changeType b) eid
            then entries (MICROSOFT_EVENT_CACHE (loop_env st))
            else (entries (MICROSOFT_EVENT_CACHE (loop_env st)))
                   (cache_key (server_name name) (js_template (changeType b)) eid \<mapsto>
                      \<lparr>payload = JSON_stringify b, expiration = Some (now + DEBOUNCE_TTL)\<rparr>))"
  using assms
  by (simp add: calendar_item_def skip_if_cached_eq accept_event_eq tie_break_def Let_def
      DEBOUNCE_TTL_def)


theorem cross_type_suppression_witness:
  "reads_ok (MICROSOFT_EVENT_CACHE (loop_env after_created)) \<and>
   writes_ok (MICROSOFT_EVENT_CACHE (loop_env after_created)) \<and>
   clientState (example_item ''updated'' ''E2'') =
     Some (MICROSOFT_WEBHOOK_SECRET (loop_env after_created)) \<and>
   resourceData_id (example_item ''updated'' ''E2'') = Some ''E2'' \<and>
   \<not> cache_holds 1 (loop_env after_created) ''acct'' ''updated'' ''E2'' \<and>
   cache_holds 1 (loop_env after_created) ''acct'' ''created'' ''E2'' \<and>
   events after_created = [\<lparr>eventId = ''E2'', eventType = Some ''created''\<rparr>] \<and>
   events (snd (calendar_item (Some ''acct'') 1 (example_item ''updated'' ''E2'') after_created)) =
     [\<lparr>eventId = ''E2'', eventType = Some ''created''\<rparr>]"
proof -
  have h1: "reads_ok (MICROSOFT_EVENT_CACHE (loop_env after_created))"
    and h2: "writes_ok (MICROSOFT_EVENT_CACHE (loop_env after_created))"
    and h3: "clientState (example_item ''updated'' ''E2'') =
               Some (MICROSOFT_WEBHOOK_SECRET (loop_env after_created))"
    and h4: "resourceData_id (example_item ''updated'' ''E2'') = Some ''E2''"
    and h5: "''E2'' \<noteq> []"
    and ev: "events after_created = [\<lparr>eventId = ''E2'', eventType = Some ''created''\<rparr>]"
    by (simp_all add: after_created_eq example_item_fields fresh_loop_fields)
  have h6: "\<not> cache_holds 1 (loop_env after_created) (server_name (Some ''acct''))
              (js_template (changeType (example_item ''updated'' ''E2''))) ''E2''"
    by (simp add: after_created_eq example_item_fields server_name_def js_template_def
        cache_holds_def cache_lookup_def cache_key_def fresh_loop_fields truthy_def)
  have c: "cache_holds 1 (loop_env after_created) ''acct'' ''created'' ''E2''"
    by (simp add: after_created_eq cache_holds_def cache_lookup_def cache_key_def live_def
        truthy_def JSON_stringify_nonempty)
  then have tb: "tie_break 1 (loop_env after_created) (server_name (Some ''acct''))
      (changeType (example_item ''updated'' ''E2'')) ''E2''"
    by (simp add: tie_break_def example_item_fields server_name_def)
  show ?thesis
    using h1 h2 h3 h4 h6 c ev tb cross_type_suppression [OF h1 h2 h3 h4 h5 h6]
    by (simp add: server_name_def js_template_def example_item_fields)
qed


text \<open>
  C2. For a notification that carries the secret and a non-empty id, while the store
  answers: if the cache holds an entry for its own key, the loop body ends after that
  single lookup, before any lookup of the tie-break table, and nothing else changes. If the
  notification is accepted (an event is added), exactly this event is appended and the entry
  for its own key is written with the debounce TTL; the same notification delivered again
  at any time inside the window is then stopped by the first lookup, so the two deliveries
  yield one accepted event.
\<close>

theorem self_deduplication:
  assumes "reads_ok (MICROSOFT_EVENT_CACHE (loop_env st))"
    and "writes_ok (MICROSOFT_EVENT_CACHE (loop_env st))"
    and "clientState b = Some (MICROSOFT_WEBHOOK_SECRET (loop_env st))"
    and "resourceData_id b = Some eid" and "eid \<noteq> []"
    and "now \<le> now'" and "now' < now + DEBOUNCE_TTL"
  shows "(cache_holds now (loop_env st) (server_name name) (js_template (changeType b)) eid \<longrightarrow>
            calendar_item name now b st =
              (None, st\<lparr>loop_env := logged (loop_env st)
                 [KvGet (cache_key (server_name name) (js_template (changeType b)) eid)]\<rparr>)) \<and>
         (events (snd (calendar_item name now b st)) \<noteq> events st \<longrightarrow>
            events (snd (calendar_item name now b st)) =
              events st @ [\<lparr>eventId = eid, eventType = changeType b\<rparr>] \<and>
            entries (MICROSOFT_EVENT_CACHE (loop_env (snd (calendar_item name now b st))))
              (cache_key (server_name name) (js_template (changeType b)) eid) =
              Some \<lparr>payload = JSON_stringify b, expiration = Some (now + DEBOUNCE_TTL)\<rparr> \<and>
            calendar_item name now' b (snd (calendar_item name now b st)) =
              (None, (snd (calendar_item name now b st))
                 \<lparr>loop_env := logged (loop_env (snd (calendar_item name now b st)))
                    [KvGet (cache_key (server_name name) (js_template (changeType b)) eid)]\<rparr>))"
proof -
  let ?sn = "server_name name" and ?ty = "js_template (changeType b)"
  let ?k = "cache_key ?sn ?ty eid"
  define st1 where "st1 = snd (calendar_item name now b st)"
  have first: "calendar_item name now b st = (None, st\<lparr>loop_env := logged (loop_env st) [KvGet ?k]\<rparr>)"
    if "cache_holds now (loop_env st) ?sn ?ty eid"
    using assms(1,3,4,5) that by (rule calendar_item_self_duplicate)
  have second: "events st1 = events st @ [\<lparr>eventId = eid, eventType = changeType b\<rparr>] \<and>
      entries (MICROSOFT_EVENT_CACHE (loop_env st1)) ?k =
        Some \<lparr>payload = JSON_stringify b, expiration = Some (now + DEBOUNCE_TTL)\<rparr> \<and>
      calendar_item name now' b st1 = (None, st1\<lparr>loop_env := logged (loop_env st1) [KvGet ?k]\<rparr>)"
    if acc: "events st1 \<noteq> events st"
  proof -
    have nh: "\<not> cache_holds now (loop_env st) ?sn ?ty eid"
    proof
      assume "cache_holds now (loop_env st) ?sn ?ty eid"
      from first [OF this] acc show False by (simp add: st1_def)
    qed
    have nt: "\<not> tie_break now (loop_env st) ?sn (changeType b) eid"
    proof
      assume "tie_break now (loop_env st) ?sn (changeType b) eid"
      from calendar_item_tie_break [OF assms(1,3,4,5) nh this] acc show False
        by (simp add: st1_def)
    qed
    note a = calendar_item_accepted [OF assms(1-5) nh nt]
    have ev: "events st1 = events st @ [\<lparr>eventId = eid, eventType = changeType b\<rparr>]"
      by (simp add: st1_def a)
    have en: "entries (MICROSOFT_EVENT_CACHE (loop_env st1)) ?k =
        Some \<lparr>payload = JSON_stringify b, expiration = Some (now + DEBOUNCE_TTL)\<rparr>"
      by (simp add: st1_def a DEBOUNCE_TTL_def)
    have r1: "reads_ok (MICROSOFT_EVENT_CACHE (loop_env st1))"
      and s1: "clientState b = Some (MICROSOFT_WEBHOOK_SECRET (loop_env st1))"
      using assms(1,3) by (simp_all add: st1_def a)
    have h1: "cache_holds now' (loop_env st1) ?sn ?ty eid"
      using en assms(7)
      by (simp add: cache_holds_def cache_lookup_def live_def truthy_def JSON_stringify_nonempty)
    from calendar_item_self_duplicate [OF r1 s1 assms(4,5) h1] ev en show ?thesis by blast
  qed
  show ?thesis
    using first second unfolding st1_def by blast
qed

theorem self_deduplication_witness:
  "reads_ok (MICROSOFT_EVENT_CACHE (loop_env fresh_loop)) \<and>
   writes_ok (MICROSOFT_EVENT_CACHE (loop_env fresh_loop)) \<and>
   clientState (example_item ''created'' ''E1'') = Some (MICROSOFT_WEBHOOK_SECRET (loop_env fresh_loop)) \<and>
   resourceData_id (example_item ''created'' ''E1'') = Some ''E1'' \<and>
   (0::nat) \<le> 10 \<and> (10::nat) < 0 + DEBOUNCE_TTL \<and>
   events fresh_loop = [] \<and>
   events (snd (calendar_item (Some ''acct'') 0 (example_item ''created'' ''E1'') fresh_loop)) =
     [\<lparr>eventId = ''E1'', eventType = Some ''created''\<rparr>] \<and>
   fst (calendar_item (Some ''acct'') 10 (example_item ''created'' ''E1'')
         (snd (calendar_item (Some ''acct'') 0 (example_item ''created'' ''E1'') fresh_loop))) = None \<and>
   events (snd (calendar_item (Some ''acct'') 10 (example_item ''created'' ''E1'')
         (snd (calendar_item (Some ''acct'') 0 (example_item ''created'' ''E1'') fresh_loop)))) =
     [\<lparr>eventId = ''E1'', eventType = Some ''created''\<rparr>]"
proof -
  let ?b = "example_item ''created'' ''E1''"
  define st1 where "st1 = snd (calendar_item (Some ''acct'') 0 ?b fresh_loop)"
  have h1: "reads_ok (MICROSOFT_EVENT_CACHE (loop_env fresh_loop))"
    and h2: "writes_ok (MICROSOFT_EVENT_CACHE (loop_env fresh_loop))"
    and h3: "clientState ?b = Some (MICROSOFT_WEBHOOK_SECRET (loop_env fresh_loop))"
    and h4: "resourceData_id ?b = Some ''E1''"
    and h5: "''E1'' \<noteq> []"
    and h6: "(0::nat) \<le> 10" and h7: "(10::nat) < 0 + DEBOUNCE_TTL"
    and e0: "events fresh_loop = []"
    by (simp_all add: example_item_fields fresh_loop_fields DEBOUNCE_TTL_def)
  have e1: "events st1 = [\<lparr>eventId = ''E1'', eventType = Some ''created''\<rparr>]"
    unfolding st1_def by (rule first_created_events) simp
  note T = self_deduplication [OF h1 h2 h3 h4 h5 h6 h7, of "Some ''acct''", folded st1_def]
  from e1 e0 have "events st1 \<noteq> events fresh_loop" by simp
  with T have "calendar_item (Some ''acct'') 10 ?b st1 =
      (None, st1\<lparr>loop_env := logged (loop_env st1)
         [KvGet (cache_key (server_name (Some ''acct'')) (js_template (changeType ?b)) ''E1'')]\<rparr>)"
    by blast
  then have "fst (calendar_item (Some ''acct'') 10 ?b st1) = None"
    and "events (snd (calendar_item (Some ''acct'') 10 ?b st1)) = events st1"
    by simp_all
  with h1 h2 h3 h4 h6 h7 e0 e1 show ?thesis
    unfolding st1_def by simp
qed

text \<open>
  The same at the level of requests, with the times of the specification's scenario A: a
  \<open>created\<close> notification is accepted at time 0, suppressed at time 10, and accepted again
  at time 130, after its entry has expired.
\<close>

theorem debounce_window_example:
  "fst (calendar_notify example_env 0 one_event) = accepted_E1 \<and>
   fst (calendar_notify (snd (calendar_notify example_env 0 one_event)) 10 one_event) =
     CJson (ok_response None) \<and>
   fst (calendar_notify
         (snd (calendar_notify (snd (calendar_notify example_env 0 one_event)) 10 one_event))
         130 one_event) = accepted_E1"
proof -
  define env1 where "env1 = snd (calendar_notify example_env 0 one_event)"
  define env2 where "env2 = snd (calendar_notify env1 10 one_event)"
  have s0: "reads_ok (MICROSOFT_EVENT_CACHE example_env)" "writes_ok (MICROSOFT_EVENT_CACHE example_env)"
    "MICROSOFT_WEBHOOK_SECRET example_env = ''s3cret''"
    by (simp_all add: fresh_loop_fields)
  note r0 = calendar_notify_one_event [OF s0, of 0, folded env1_def]
  have a0: "fst (calendar_notify example_env 0 one_event) = accepted_E1"
    using r0 by (simp add: example_env_holds_nothing accepted_E1_def)
  have e1: "entries (MICROSOFT_EVENT_CACHE env1) =
      (entries (MICROSOFT_EVENT_CACHE example_env))(''acct:created:E1'' \<mapsto>
         \<lparr>payload = JSON_stringify (example_item ''created'' ''E1''), expiration = Some 120\<rparr>)"
    using r0 by (simp add: example_env_holds_nothing)
  have s1: "reads_ok (MICROSOFT_EVENT_CACHE env1)" "writes_ok (MICROSOFT_EVENT_CACHE env1)"
    "MICROSOFT_WEBHOOK_SECRET env1 = ''s3cret''"
    using r0 s0 by (simp_all add: same_store_def)
  have h1: "cache_holds 10 env1 ''acct'' ''created'' ''E1''"
    by (simp add: cache_holds_def cache_lookup_def cache_key_def e1 live_def truthy_def
        JSON_stringify_nonempty)
  note r1 = calendar_notify_one_event [OF s1, of 10, folded env2_def]
  have a1: "fst (calendar_notify env1 10 one_event) = CJson (ok_response None)"
    using r1 h1 by simp
  have e2: "entries (MICROSOFT_EVENT_CACHE env2) = entries (MICROSOFT_EVENT_CACHE env1)"
    using r1 h1 by simp
  have s2: "reads_ok (MICROSOFT_EVENT_CACHE env2)" "writes_ok (MICROSOFT_EVENT_CACHE env2)"
    "MICROSOFT_WEBHOOK_SECRET env2 = ''s3cret''"
    using r1 s1 by (simp_all add: same_store_def)
  have h2: "\<not> cache_holds 130 env2 ''acct'' ''created'' ''E1''"
    "\<not> cache_holds 130 env2 ''acct'' ''updated'' ''E1''"
    by (simp_all add: cache_holds_def cache_lookup_def cache_key_def e1 e2 live_def truthy_def
        fresh_loop_fields)
  have a2: "fst (calendar_notify env2 130 one_event) = accepted_E1"
    using calendar_notify_one_event [OF s2, of 130] h2 by (simp add: accepted_E1_def)
  from a0 a1 a2 show ?thesis
    unfolding env1_def env2_def by simp
qed

section \<open>Token refresh and replay\<close>

text \<open>
  The calls \<open>makeRequest\<close> makes after a 401. Exactly one refresh-token exchange is
  made. If the exchange fails, its error is raised, the tokens are unchanged and no replay
  is made. If it succeeds, exactly one replay of the same request (same URL, method and
  options) is made with the new access token in the \<open>Authorization\<close> header, and
  whatever the replay's status, no second exchange and no third request follow.
\<close>

theorem token_refresh_retry:
  assumes "api net log (api_call u options (accessToken svc)) = Response r1"
    and "status r1 = 401"
  shows "(let log1 = log @ [ApiFetch (api_call u options (accessToken svc))];
              refreshed = refreshAccessToken net (svc, log1);
              svc' = fst (snd refreshed);
              replay = api_call u options (accessToken svc')
          in (case fst refreshed of
                Some err \<Rightarrow>
                  makeRequest net u options (svc, log) =
                    (Inl err, svc, log1 @ [TokenFetch (refresh_call svc)])
              | None \<Rightarrow>
                  snd (makeRequest net u options (svc, log)) =
                    (svc', log1 @ [TokenFetch (refresh_call svc), ApiFetch replay])) \<and>
             url replay = u \<and> http_method replay = init_method options \<and>
             (''Authorization'' \<notin> fst ` set (init_headers options) \<longrightarrow>
                map_of (headers replay) ''Authorization'' = Some (''Bearer '' @ accessToken svc')))"
proof -
  let ?log1 = "log @ [ApiFetch (api_call u options (accessToken svc))]"
  obtain e svc' log2 where r: "refreshAccessToken net (svc, ?log1) = (e, svc', log2)"
    by (cases "refreshAccessToken net (svc, ?log1)") auto
  have l2: "log2 = ?log1 @ [TokenFetch (refresh_call svc)]"
    using refreshAccessToken_log [of net svc ?log1] r by simp
  have hd: "''Authorization'' \<notin> fst ` set (init_headers options) \<Longrightarrow>
      map_of (headers (api_call u options (accessToken svc'))) ''Authorization'' =
        Some (''Bearer '' @ accessToken svc')"
    by (simp add: api_call_def request_headers_authorization)
  show ?thesis
  proof (cases e)
    case None
    with assms r l2 hd show ?thesis
      by (simp add: makeRequest_def Let_def api_call_def split: fetched.splits)
  next
    case (Some err)
    with r have "svc' = svc" using refreshAccessToken_failed [of net svc ?log1 err] by simp
    with Some assms r l2 hd show ?thesis
      by (simp add: makeRequest_def Let_def api_call_def)
  qed
qed

theorem token_refresh_retry_example:
  "api unauthorized [] (api_call ''https://graph.example/me'' get_me (accessToken example_service)) =
     Response \<lparr>status = 401, statusText = ''Unauthorized'', json_body = Some (JsonObject None None)\<rparr> \<and>
   snd (makeRequest unauthorized ''https://graph.example/me'' get_me (example_service, [])) =
     (example_service\<lparr>accessToken := ''tok-2''\<rparr>,
      [ApiFetch (api_call ''https://graph.example/me'' get_me ''tok-1''),
       TokenFetch (refresh_call example_service),
       ApiFetch (api_call ''https://graph.example/me'' get_me ''tok-2'')]) \<and>
   map_of (headers (api_call ''https://graph.example/me'' get_me ''tok-2'')) ''Authorization'' =
     Some ''Bearer tok-2''"
proof -
  let ?r = "\<lparr>status = 401, statusText = ''Unauthorized'', json_body = Some (JsonObject None None)\<rparr>"
  have a: "api unauthorized [] (api_call ''https://graph.example/me'' get_me (accessToken example_service)) =
     Response ?r"
    by (simp add: unauthorized_def)
  have s: "status ?r = 401" by simp
  have acc: "accessToken example_service = ''tok-1''"
    by (simp add: example_service_def)
  have f: "refreshAccessToken unauthorized (example_service,
      [ApiFetch (api_call ''https://graph.example/me'' get_me ''tok-1'')]) =
     (None, example_service\<lparr>accessToken := ''tok-2''\<rparr>,
      [ApiFetch (api_call ''https://graph.example/me'' get_me ''tok-1''),
       TokenFetch (refresh_call example_service)])"
    by (simp add: refreshAccessToken_def unauthorized_def token_reply_def response_ok_def
        truthy_def)
  have h: "''Authorization'' \<notin> fst ` set (init_headers get_me)"
    by (simp add: get_me_def)
  show ?thesis
    using a h token_refresh_retry [OF a s]
    by (simp add: acc f Let_def)
qed

text \<open>
  C3. The claim: a 401 triggers exactly one refresh-token exchange and exactly one replay
  with the new access token, and a replay that is also answered 401 is reported as an
  authentication-expired condition, with no second exchange and no third request. The
  calls are as claimed, but the replay's status is never looked at (the first attempt's
  check \<open>if (!response.ok) throw\<close> has no counterpart on the replay). Here the server
  answers the request and its replay with 401: \<open>makeRequest\<close> returns the body of the
  second answer as its result, and \<open>getUserCalendarEvents\<close> returns an empty list.
\<close>

theorem replay_401_returned_as_result:
  "api unauthorized [] (api_call ''https://graph.example/me'' get_me ''tok-1'') =
     Response \<lparr>status = 401, statusText = ''Unauthorized'', json_body = Some (JsonObject None None)\<rparr> \<and>
   api unauthorized
       [ApiFetch (api_call ''https://graph.example/me'' get_me ''tok-1''),
        TokenFetch (refresh_call example_service)]
       (api_call ''https://graph.example/me'' get_me ''tok-2'') =
     Response \<lparr>status = 401, statusText = ''Unauthorized'', json_body = Some (JsonObject None None)\<rparr> \<and>
   makeRequest unauthorized ''https://graph.example/me'' get_me (example_service, []) =
     (Inr (JsonObject None None), example_service\<lparr>accessToken := ''tok-2''\<rparr>,
      [ApiFetch (api_call ''https://graph.example/me'' get_me ''tok-1''),
       TokenFetch (refresh_call example_service),
       ApiFetch (api_call ''https://graph.example/me'' get_me ''tok-2'')]) \<and>
   getUserCalendarEvents unauthorized ''2024-01-01'' ''2024-02-01'' 100 (example_service, []) =
     Some (Inr [], example_service\<lparr>accessToken := ''tok-2''\<rparr>,
      [ApiFetch (api_call (initialUrl example_service ''2024-01-01'' ''2024-02-01'' 100) get_me ''tok-1''),
       TokenFetch (refresh_call example_service),
       ApiFetch (api_call (initialUrl example_service ''2024-01-01'' ''2024-02-01'' 100) get_me ''tok-2'')])"
proof -
  have g: "getUserCalendarEvents unauthorized ''2024-01-01'' ''2024-02-01'' 100 (example_service, []) =
     Some (Inr [], example_service\<lparr>accessToken := ''tok-2''\<rparr>,
      [ApiFetch (api_call (initialUrl example_service ''2024-01-01'' ''2024-02-01'' 100) get_me ''tok-1''),
       TokenFetch (refresh_call example_service),
       ApiFetch (api_call (initialUrl example_service ''2024-01-01'' ''2024-02-01'' 100) get_me ''tok-2'')])"
    unfolding getUserCalendarEvents_def
    by (subst page_loop.simps)
       (simp add: unauthorized_makeRequest [unfolded get_me_def] truthy_def js_template_def
          initialUrl_example, subst page_loop.simps, simp add: truthy_def get_me_def)
  show ?thesis
    by (simp add: unauthorized_makeRequest g) (simp add: unauthorized_def)
qed

text \<open>
  C9. After a successful exchange (2xx answer with a JSON body) the stored access token is
  the new \<open>access_token\<close>; the stored refresh token is the new \<open>refresh_token\<close> when the
  answer carries one (a non-empty value, the test \<open>if (refresh_token)\<close>) and is unchanged
  otherwise; the user id and the environment of the service are unchanged.
\<close>

theorem refresh_token_rotation:
  assumes "token_endpoint net log (refresh_call svc) = Response res"
    and "response_ok (token_status res)" and "token_body res = Some tok"
  shows "refreshAccessToken net (svc, log) =
           (None,
            svc\<lparr>accessToken := access_token tok,
                refreshToken := (if truthy (refresh_token tok) then js_template (refresh_token tok)
                                 else refreshToken svc)\<rparr>,
            log @ [TokenFetch (refresh_call svc)]) \<and>
         (let svc' = fst (snd (refreshAccessToken net (svc, log))) in
            accessToken svc' = access_token tok \<and>
            (case refresh_token tok of
               None \<Rightarrow> refreshToken svc' = refreshToken svc
             | Some new \<Rightarrow> refreshToken svc' = (if new = [] then refreshToken svc else new)) \<and>
            userId svc' = userId svc \<and> service_env svc' = service_env svc)"
  using assms
  by (simp add: refreshAccessToken_def Let_def truthy_def js_template_def split: option.splits)

theorem refresh_token_rotation_witness:
  "token_endpoint rotating [] (refresh_call example_service) = token_reply ''tok-2'' (Some ''ref-2'') \<and>
   response_ok 200 \<and>
   fst (snd (refreshAccessToken rotating (example_service, []))) =
     example_service\<lparr>accessToken := ''tok-2'', refreshToken := ''ref-2''\<rparr> \<and>
   fst (snd (refreshAccessToken not_rotating (example_service, []))) =
     example_service\<lparr>accessToken := ''tok-2''\<rparr>"
proof -
  let ?r1 = "\<lparr>token_status = 200, token_text = [],
               token_body = Some \<lparr>access_token = ''tok-2'', refresh_token = Some ''ref-2''\<rparr>\<rparr>"
  let ?r2 = "\<lparr>token_status = 200, token_text = [],
               token_body = Some \<lparr>access_token = ''tok-2'', refresh_token = None\<rparr>\<rparr>"
  have a: "token_endpoint rotating [] (refresh_call example_service) = Response ?r1"
    and b: "token_endpoint not_rotating [] (refresh_call example_service) = Response ?r2"
    by (simp_all add: rotating_def not_rotating_def token_reply_def)
  have ok: "response_ok (token_status ?r1)" "response_ok (token_status ?r2)" "response_ok 200"
    by (simp_all add: response_ok_def)
  have t: "token_body ?r1 = Some \<lparr>access_token = ''tok-2'', refresh_token = Some ''ref-2''\<rparr>"
    "token_body ?r2 = Some \<lparr>access_token = ''tok-2'', refresh_token = None\<rparr>"
    by simp_all
  show ?thesis
    using a ok(3) refresh_token_rotation [OF a ok(1) t(1)] refresh_token_rotation [OF b ok(2) t(2)]
    by (simp add: truthy_def js_template_def example_service_def token_reply_def)
qed

section \<open>Pagination\<close>

text \<open>
  C4. When the server answers the page requests with \<open>n\<close> linked pages, starting at the
  URL built from the arguments, \<open>getUserCalendarEvents\<close> returns: its result is the
  concatenation of the pages' \<open>value\<close> arrays in page order, the tokens are unchanged,
  and it has made exactly one GET per page, the first to the initial URL and each next one
  to the \<open>@odata.nextLink\<close> of the page before; it stops at the page without a link.
\<close>

theorem pagination_completeness:
  assumes "linked_pages net svc log (initialUrl svc startDate endDate limit) pages"
  shows "getUserCalendarEvents net startDate endDate limit (svc, log) =
           Some (Inr (page_items pages), svc,
                 log @ map (\<lambda>u. ApiFetch (get_call svc u))
                         (page_urls (initialUrl svc startDate endDate limit) pages)) \<and>
         length (page_urls (initialUrl svc startDate endDate limit) pages) = length pages"
proof -
  from assms have "pages \<noteq> []" by auto
  then have "length (page_urls (initialUrl svc startDate endDate limit) pages) = length pages"
    by (simp add: page_urls_def)
  with page_loop_linked [OF assms, of "[]"] show ?thesis
    by (simp add: getUserCalendarEvents_def)
qed

theorem pagination_completeness_witness:
  "linked_pages three_pages example_service []
     (initialUrl example_service ''2024-01-01'' ''2024-02-01'' 100)
     [(Some [''e1'', ''e2''], Some ''https://graph.example/page2''),
      (Some [''e3''], Some ''https://graph.example/page3''),
      (Some [''e4'', ''e5''], None)] \<and>
   getUserCalendarEvents three_pages ''2024-01-01'' ''2024-02-01'' 100 (example_service, []) =
     Some (Inr [''e1'', ''e2'', ''e3'', ''e4'', ''e5''], example_service,
           [ApiFetch (get_call example_service (initialUrl example_service ''2024-01-01'' ''2024-02-01'' 100)),
            ApiFetch (get_call example_service ''https://graph.example/page2''),
            ApiFetch (get_call example_service ''https://graph.example/page3'')])"
proof -
  have l: "linked_pages three_pages example_service []
     (initialUrl example_service ''2024-01-01'' ''2024-02-01'' 100)
     [(Some [''e1'', ''e2''], Some ''https://graph.example/page2''),
      (Some [''e3''], Some ''https://graph.example/page3''),
      (Some [''e4'', ''e5''], None)]"
    by (simp add: three_pages_def ok_page_def get_call_def api_call_def initialUrl_example
        response_ok_def truthy_def js_template_def)
  show ?thesis
    using l pagination_completeness [OF l]
    by (simp add: page_items_def page_urls_def js_template_def)
qed

end
